theory Spec2Isabelle
  imports Complex_Main "HOL-Library.AList"
begin

section \<open>Doubles\<close>

text \<open>
  The library computes with C doubles. The model keeps the four kinds of value the code
  distinguishes (\<open>NEGINF\<close> and \<open>POSINF\<close> are the constants \<open>NEGINF\<close> and \<open>INF\<close> of the source, \<open>NaN\<close> is what
  \<open>-inf - -inf\<close> and \<open>clog\<close> of a negative number give) and computes exactly on the finite
  ones: rounding is not modelled.
\<close>

datatype double = NaN | NEGINF | Fin real | POSINF

instantiation double :: "{plus, minus, ord}"
begin

fun plus_double :: "double \<Rightarrow> double \<Rightarrow> double" where
  "plus_double (Fin a) (Fin b) = Fin (a + b)"
| "plus_double NaN y = NaN"
| "plus_double x NaN = NaN"
| "plus_double NEGINF POSINF = NaN"
| "plus_double POSINF NEGINF = NaN"
| "plus_double NEGINF y = NEGINF"
| "plus_double x NEGINF = NEGINF"
| "plus_double POSINF y = POSINF"
| "plus_double x POSINF = POSINF"

fun minus_double :: "double \<Rightarrow> double \<Rightarrow> double" where
  "minus_double (Fin a) (Fin b) = Fin (a - b)"
| "minus_double NaN y = NaN"
| "minus_double x NaN = NaN"
| "minus_double NEGINF NEGINF = NaN"
| "minus_double POSINF POSINF = NaN"
| "minus_double NEGINF y = NEGINF"
| "minus_double x POSINF = NEGINF"
| "minus_double POSINF y = POSINF"
| "minus_double x NEGINF = POSINF"

fun less_double :: "double \<Rightarrow> double \<Rightarrow> bool" where
  "less_double (Fin a) (Fin b) = (a < b)"
| "less_double NEGINF (Fin b) = True"
| "less_double NEGINF POSINF = True"
| "less_double (Fin a) POSINF = True"
| "less_double x y = False"

definition less_eq_double :: "double \<Rightarrow> double \<Rightarrow> bool" where
  "less_eq_double x y = (x < y \<or> (x = y \<and> x \<noteq> NaN))"

instance ..

end

text \<open>\<open>clog\<close> and \<open>cexp\<close> of libc.\<close>

fun clog :: "double \<Rightarrow> double" where
  "clog (Fin x) = (if 0 < x then Fin (ln x) else if x = 0 then NEGINF else NaN)"
| "clog POSINF = POSINF"
| "clog NEGINF = NaN"
| "clog NaN = NaN"

fun cexp :: "double \<Rightarrow> double" where
  "cexp (Fin x) = Fin (exp x)"
| "cexp NEGINF = Fin 0"
| "cexp POSINF = POSINF"
| "cexp NaN = NaN"

text \<open>\<open>_log\<close>: \<open>clog( x ) if x > 0 else NEGINF\<close>.\<close>

definition log' :: "double \<Rightarrow> double" where
  "log' x = (if Fin 0 < x then clog x else NEGINF)"

text \<open>\<open>pair_lse\<close>, branch by branch.\<close>

definition pair_lse :: "double \<Rightarrow> double \<Rightarrow> double" where
  "pair_lse x y =
     (if x = POSINF \<or> y = POSINF then POSINF
      else if x = NEGINF then y
      else if y = NEGINF then x
      else if y < x then x + clog (cexp (y - x) + Fin 1)
      else y + clog (cexp (x - y) + Fin 1))"

text \<open>
  Multiplication, division, \<open>abs\<close> and \<open>math.sqrt\<close>, which the distribution fits use.
  The sign of a zero is not modelled: a zero divisor counts as \<open>+0.0\<close>, so \<open>x / 0\<close> is
  the infinity of the sign of \<open>x\<close> and \<open>0 / 0\<close> is \<open>NaN\<close>, as numpy's doubles give. An
  infinity divided by a finite number keeps its sign when the divisor is positive and
  changes it when the divisor is negative.
\<close>

fun dsign :: "double \<Rightarrow> real" where
  "dsign (Fin a) = sgn a"
| "dsign POSINF = 1"
| "dsign NEGINF = - 1"
| "dsign NaN = 0"

instantiation double :: "{times, inverse}"
begin

fun times_double :: "double \<Rightarrow> double \<Rightarrow> double" where
  "times_double (Fin a) (Fin b) = Fin (a * b)"
| "times_double NaN y = NaN"
| "times_double x NaN = NaN"
| "times_double x y =
     (if dsign x * dsign y = 0 then NaN
      else if 0 < dsign x * dsign y then POSINF else NEGINF)"

fun divide_double :: "double \<Rightarrow> double \<Rightarrow> double" where
  "divide_double (Fin a) (Fin b) =
     (if b \<noteq> 0 then Fin (a / b)
      else if a = 0 then NaN else if 0 < a then POSINF else NEGINF)"
| "divide_double NaN y = NaN"
| "divide_double x NaN = NaN"
| "divide_double (Fin a) y = Fin 0"
| "divide_double x (Fin b) =
     (if 0 \<le> b then x else if x = POSINF then NEGINF else POSINF)"
| "divide_double x y = NaN"

definition inverse_double :: "double \<Rightarrow> double" where
  "inverse_double x = Fin 1 div x"

instance ..

end

fun dabs :: "double \<Rightarrow> double" where
  "dabs (Fin a) = Fin \<bar>a\<bar>"
| "dabs POSINF = POSINF"
| "dabs NEGINF = POSINF"
| "dabs NaN = NaN"

datatype error = TypeError | ZeroDivisionError | ValueError | NotImplementedError | IndexError
  | AttributeError | KeyError | SyntaxError | NetworkXUnfeasible

text \<open>\<open>math.sqrt\<close> raises \<open>ValueError\<close> on a negative argument.\<close>

fun math_sqrt :: "double \<Rightarrow> error + double" where
  "math_sqrt (Fin a) = (if a < 0 then Inl ValueError else Inr (Fin (sqrt a)))"
| "math_sqrt POSINF = Inr POSINF"
| "math_sqrt NEGINF = Inl ValueError"
| "math_sqrt NaN = Inr NaN"

section \<open>Distributions: \<open>from_sample\<close>\<close>

text \<open>
  Samples and weights are arrays of finite numbers (\<open>real list\<close>); \<open>weights=None\<close> is
  \<open>None\<close>. The gamma fits take their samples as doubles, since the inverse gamma fit
  passes reciprocals, which may be infinite. The parameters of a distribution are the list \<open>self.parameters\<close>. A fit
  returns the parameters the object holds afterwards, or the exception raised.
\<close>

definition weights_or_ones :: "'a list \<Rightarrow> real list option \<Rightarrow> real list" where
  "weights_or_ones items weights =
     (case weights of None \<Rightarrow> replicate (length items) 1 | Some w \<Rightarrow> w)"

text \<open>
  \<open>numpy.average(a, weights=w)\<close>: a \<open>TypeError\<close> when the shapes differ, a
  \<open>ZeroDivisionError\<close> when the weights sum to zero.
\<close>

definition average :: "real list \<Rightarrow> real list \<Rightarrow> error + real" where
  "average a w =
     (if length a \<noteq> length w then Inl TypeError
      else if sum_list w = 0 then Inl ZeroDivisionError
      else Inr (sum_list (map2 (*) a w) / sum_list w))"

definition dsum :: "double list \<Rightarrow> double" where
  "dsum xs = foldl (+) (Fin 0) xs"

definition average_d :: "double list \<Rightarrow> real list \<Rightarrow> error + double" where
  "average_d a w =
     (if length a \<noteq> length w then Inl TypeError
      else if sum_list w = 0 then Inl ZeroDivisionError
      else Inr (dsum (map2 (\<lambda>x y. x * Fin y) a w) / Fin (sum_list w)))"

text \<open>\<open>UniformDistribution.from_sample\<close>.\<close>

definition uniform_from_sample ::
  "double list \<Rightarrow> real list \<Rightarrow> real list option \<Rightarrow> double list" where
  "uniform_from_sample parameters items weights =
     (let items = (case weights of
                     None \<Rightarrow> items
                   | Some w \<Rightarrow> map fst (filter (\<lambda>(item, weight). 0 < weight) (zip items w)))
      in if length items = 0 then parameters
         else (parameters[0 := Fin (Min (set items))])[1 := Fin (Max (set items))])"

text \<open>\<open>NormalDistribution.from_sample\<close>; \<open>max( numpy.array([std, min_std]) )\<close> is Python's
  \<open>max\<close>, which keeps the first element unless the second is greater.\<close>

definition normal_from_sample ::
  "double list \<Rightarrow> real list \<Rightarrow> real list option \<Rightarrow> real \<Rightarrow> error + double list" where
  "normal_from_sample parameters items weights min_std =
     (if length items = 0 then Inr parameters
      else let weights = weights_or_ones items weights
      in if sum_list weights = 0 then Inr parameters
         else case average items weights of
           Inl e \<Rightarrow> Inl e
         | Inr mean \<Rightarrow>
             let std =
               (if 1 < length (filter (\<lambda>w. w \<noteq> 0) weights)
                then let variance =
                           sum_list (map2 (*) (map (\<lambda>x. x ^ 2 - mean ^ 2) items) weights)
                             / sum_list weights
                     in if 0 \<le> variance then Fin (sqrt variance) else Fin 0
                else parameters ! 1);
               std = (if std < Fin min_std then Fin min_std else std)
             in Inr [Fin mean, std])"

text \<open>\<open>ExponentialDistribution.from_sample\<close>.\<close>

definition exponential_from_sample ::
  "double list \<Rightarrow> real list \<Rightarrow> real list option \<Rightarrow> error + double list" where
  "exponential_from_sample parameters items weights =
     (if length items = 0 then Inr parameters
      else let weights = weights_or_ones items weights
      in if sum_list weights = 0 then Inr parameters
         else case average items weights of
           Inl e \<Rightarrow> Inl e
         | Inr weighted_mean \<Rightarrow> Inr (parameters[0 := Fin 1 / Fin weighted_mean]))"

text \<open>
  \<open>GammaDistribution.from_sample\<close>. The module's \<open>log\<close> on an array gives \<open>numpy.log\<close>
  on the positive entries, \<open>NEGINF\<close> on the zeros and leaves \<open>0\<close> elsewhere; on a scalar
  it is \<open>_log\<close>. \<open>scipy.special.polygamma(0, x)\<close> and \<open>polygamma(1, x)\<close> are the
  parameters \<open>digamma\<close> and \<open>trigamma\<close>; \<open>random.random()\<close> reads the stream \<open>rng\<close> at
  a position that the fit advances and returns.
\<close>

definition log_array :: "double list \<Rightarrow> double list" where
  "log_array value =
     map (\<lambda>v. if Fin 0 < v then clog v else if v = Fin 0 then NEGINF else Fin 0) value"

function newton_raphson ::
  "(double \<Rightarrow> double) \<Rightarrow> (double \<Rightarrow> double) \<Rightarrow> (nat \<Rightarrow> real) \<Rightarrow> double \<Rightarrow> real \<Rightarrow> nat \<Rightarrow>
   double \<Rightarrow> double \<Rightarrow> nat \<Rightarrow> nat \<Rightarrow> double \<times> nat" where
  "newton_raphson digamma trigamma rng statistic epsilon iteration_limit
       shape new_shape iteration pos =
     (if Fin epsilon < dabs (shape - new_shape) \<and> iteration < iteration_limit then
        (let shape = new_shape;
             new_shape = shape - (log' shape - digamma shape - statistic)
                                   / (Fin 1 / shape - trigamma shape)
         in if dabs new_shape = POSINF \<or> new_shape = Fin 0
            then newton_raphson digamma trigamma rng statistic epsilon iteration_limit
                   new_shape (Fin (rng pos)) (iteration + 1) (pos + 1)
            else newton_raphson digamma trigamma rng statistic epsilon iteration_limit
                   shape new_shape (iteration + 1) pos)
      else (new_shape, pos))"
  by pat_completeness auto
termination
  by (relation "measure (\<lambda>(d, t, r, s, e, limit, sh, nsh, iteration, pos). limit - iteration)")
     auto

definition gamma_from_sample ::
  "(double \<Rightarrow> double) \<Rightarrow> (double \<Rightarrow> double) \<Rightarrow> (nat \<Rightarrow> real) \<Rightarrow> nat \<Rightarrow>
   double list \<Rightarrow> double list \<Rightarrow> real list option \<Rightarrow> real \<Rightarrow> nat \<Rightarrow> error + (double list \<times> nat)" where
  "gamma_from_sample digamma trigamma rng pos parameters items weights epsilon iteration_limit =
     (if length items = 0 then Inr (parameters, pos)
      else let weights = weights_or_ones items weights
      in if sum_list weights = 0 then Inr (parameters, pos)
         else case average_d items weights of
           Inl e \<Rightarrow> Inl e
         | Inr mean \<Rightarrow>
         (case average_d (log_array items) weights of
           Inl e \<Rightarrow> Inl e
         | Inr mean_log \<Rightarrow>
         (let statistic = log' mean - mean_log
          in case (if statistic \<noteq> Fin 0
                   then math_sqrt ((statistic - Fin 3) * (statistic - Fin 3) + Fin 24 * statistic)
                   else Inr NaN) of
            Inl e \<Rightarrow> Inl e
          | Inr sq \<Rightarrow>
            (let new_shape = (Fin 3 - statistic + sq) / (Fin 12 * statistic);
                 new_shape = (if statistic = Fin 0 \<or> new_shape \<le> Fin 0
                              then parameters ! 0 else new_shape);
                 (shape, pos') = newton_raphson digamma trigamma rng statistic epsilon
                                   iteration_limit POSINF new_shape 0 pos;
                 rate = Fin 1 / (Fin 1 / (shape * Fin (sum_list weights))
                                   * dsum (map2 (\<lambda>x y. x * Fin y) items weights))
             in Inr ([shape, rate], pos')))))"

text \<open>
  \<open>InverseGammaDistribution.from_sample\<close> fits the gamma distribution on
  \<open>1.0 / numpy.asarray(items)\<close>, with the default \<open>epsilon\<close> and \<open>iteration_limit\<close>.
\<close>

definition inverse_gamma_from_sample ::
  "(double \<Rightarrow> double) \<Rightarrow> (double \<Rightarrow> double) \<Rightarrow> (nat \<Rightarrow> real) \<Rightarrow> nat \<Rightarrow>
   double list \<Rightarrow> double list \<Rightarrow> real list option \<Rightarrow> error + (double list \<times> nat)" where
  "inverse_gamma_from_sample digamma trigamma rng pos parameters items weights =
     gamma_from_sample digamma trigamma rng pos parameters (map (\<lambda>x. Fin 1 / x) items) weights
       (1 / 10 ^ 9) 1000"

text \<open>
  The rate as the specification words it, \<open>\<beta> = \<Sigma>w / (\<alpha> \<cdot> \<Sigma>(x\<cdot>w))\<close>, to compare with
  the rate the fit computes.
\<close>

definition spec_rate :: "real \<Rightarrow> real list \<Rightarrow> real list \<Rightarrow> real" where
  "spec_rate alpha w xs = sum_list w / (alpha * sum_list (map2 (*) xs w))"

text \<open>
  \<open>DiscreteDistribution.from_sample\<close>. \<open>self.parameters = [ characters ]\<close>, the
  dictionary is a map. \<open>if weights:\<close> is false for \<open>None\<close> and for an empty list.
\<close>

definition normalized_weights :: "nat \<Rightarrow> real list option \<Rightarrow> double list" where
  "normalized_weights n weights =
     (case weights of
        None \<Rightarrow> replicate n (Fin 1 / Fin (real n))
      | Some w \<Rightarrow> if w = [] then replicate n (Fin 1 / Fin (real n))
                  else map (\<lambda>x. Fin x / Fin (sum_list w)) w)"

fun count_characters :: "('c \<rightharpoonup> double) \<Rightarrow> ('c \<times> double) list \<Rightarrow> ('c \<rightharpoonup> double)" where
  "count_characters characters [] = characters"
| "count_characters characters ((character, weight) # rest) =
     count_characters
       (characters(character \<mapsto>
          (case characters character of
             Some v \<Rightarrow> v + Fin 1 * weight
           | None \<Rightarrow> Fin 1 * weight))) rest"

definition discrete_from_sample ::
  "('c \<rightharpoonup> double) \<Rightarrow> 'c list \<Rightarrow> real list option \<Rightarrow> ('c \<rightharpoonup> double)" where
  "discrete_from_sample characters items weights =
     count_characters Map.empty (zip items (normalized_weights (length items) weights))"

text \<open>
  The kernel densities (\<open>GaussianKernelDensity\<close>, \<open>UniformKernelDensity\<close>,
  \<open>TriangleKernelDensity\<close>) share one \<open>from_sample\<close>: it rebinds the attributes
  \<open>points\<close> and \<open>weights\<close> and leaves the list \<open>self.parameters\<close>, which still holds the
  arrays given to the constructor.
\<close>

record kernel_density =
  points :: "real list"
  kd_weights :: "double list"
  kd_parameters :: "real list \<times> real \<times> double list"

definition kernel_density_from_sample ::
  "kernel_density \<Rightarrow> real list \<Rightarrow> real list option \<Rightarrow> kernel_density" where
  "kernel_density_from_sample d pts weights =
     d\<lparr>points := pts, kd_weights := normalized_weights (length pts) weights\<rparr>"

text \<open>\<open>MixtureDistribution.from_sample\<close>, and \<open>Distribution.from_sample\<close> that
  \<open>LambdaDistribution\<close> inherits, raise.\<close>

definition mixture_from_sample :: "'p \<Rightarrow> real list \<Rightarrow> real list option \<Rightarrow> error + 'p" where
  "mixture_from_sample parameters items weights = Inl NotImplementedError"

definition lambda_from_sample :: "'p \<Rightarrow> real list \<Rightarrow> real list option \<Rightarrow> error + 'p" where
  "lambda_from_sample parameters items weights = Inl NotImplementedError"

section \<open>The builder graph\<close>

text \<open>
  A \<open>State\<close> object: Python compares states by object identity, which the field
  \<open>identity\<close> stands for (the states of one graph have pairwise different identities).
  A state whose distribution is \<open>None\<close> is silent. The graph is a
  \<open>networkx.DiGraph\<close>: a dictionary of nodes and, per ordered pair of nodes, at most one
  edge with an attribute dictionary \<open>{weight, pseudocount}\<close>. The dictionaries are kept as
  lists in insertion order; \<open>add_edge\<close> on an existing pair updates its attributes in
  place, as networkx does.
\<close>

record 'd state =
  identity :: nat
  distribution :: "'d option"
  state_weight :: real

definition is_silent :: "'d state \<Rightarrow> bool" where
  "is_silent s = (distribution s = None)"

record edge_attr =
  weight :: double
  pseudocount :: real

record 'd graph =
  nodes :: "'d state list"
  edges :: "(('d state \<times> 'd state) \<times> edge_attr) list"

definition add_node :: "'d graph \<Rightarrow> 'd state \<Rightarrow> 'd graph" where
  "add_node g s = (if s \<in> set (nodes g) then g else g\<lparr>nodes := nodes g @ [s]\<rparr>)"

definition add_edge :: "'d graph \<Rightarrow> 'd state \<Rightarrow> 'd state \<Rightarrow> edge_attr \<Rightarrow> 'd graph" where
  "add_edge g u v attr =
     (let g' = add_node (add_node g u) v
      in g'\<lparr>edges := AList.update (u, v) attr (edges g')\<rparr>)"

text \<open>
  \<open>Model.add_transition\<close>. The optional argument \<open>pseudocount=None\<close> is an option;
  \<open>pseudocount or probability\<close> takes the probability when the pseudocount is \<open>None\<close> or
  zero.
\<close>

definition add_transition ::
  "'d graph \<Rightarrow> 'd state \<Rightarrow> 'd state \<Rightarrow> real \<Rightarrow> real option \<Rightarrow> 'd graph" where
  "add_transition g a b probability pseudocount' =
     (let pc = (case pseudocount' of
                  None \<Rightarrow> probability
                | Some c \<Rightarrow> if c \<noteq> 0 then c else probability)
      in add_edge g a b \<lparr>weight = log' (Fin probability), pseudocount = pc\<rparr>)"

section \<open>The compiled model\<close>

text \<open>
  What \<open>bake\<close> leaves in the \<open>Model\<close> object: the state vector and the two sparse edge
  stores. \<open>in_edge_count\<close> and \<open>out_edge_count\<close> hold the cumulative counts, so the
  in-edges of state \<open>l\<close> are the slots \<open>in_edge_count[l] ..< in_edge_count[l+1]\<close>. The
  field \<open>finite\<close> of the source is \<open>finite'\<close>. The tie tables (\<open>tied_state_count\<close>,
  \<open>tied\<close>) are read by the trainers and the posterior decoders only and are left out.

  The kernels below index these arrays the way the source does. On a model that \<open>bake\<close>
  built every index is in range; the theorems about the kernels assume so (\<open>wf_model\<close>),
  and the definitions say nothing about what an out-of-range read would do.
\<close>

record 'd model =
  states :: "'d state list"
  start_index :: nat
  end_index :: nat
  silent_start :: nat
  in_edge_count :: "nat list"
  in_transitions :: "int list"
  in_transition_log_probabilities :: "double list"
  in_transition_pseudocounts :: "real list"
  out_edge_count :: "nat list"
  out_transitions :: "int list"
  out_transition_log_probabilities :: "double list"
  out_transition_pseudocounts :: "real list"
  state_weights :: "double list"
  finite' :: nat

section \<open>Baking\<close>

text \<open>
  \<open>Model.bake\<close>. Exceptions are values: \<open>bind_err\<close> passes the first one on, and
  \<open>fold_err\<close> is a \<open>for\<close> loop whose body may raise.
\<close>

definition bind_err :: "error + 'a \<Rightarrow> ('a \<Rightarrow> error + 'b) \<Rightarrow> error + 'b" where
  "bind_err x f = (case x of Inl e \<Rightarrow> Inl e | Inr v \<Rightarrow> f v)"

fun fold_err :: "('a \<Rightarrow> 's \<Rightarrow> error + 's) \<Rightarrow> 'a list \<Rightarrow> 's \<Rightarrow> error + 's" where
  "fold_err f [] s = Inr s"
| "fold_err f (x # xs) s = bind_err (f x s) (fold_err f xs)"

text \<open>
  The graph operations of networkx that \<open>bake\<close> uses. \<open>graph.edges()\<close> lists the edges
  node by node, the out-edges of each node together; \<open>graph.edge[state].values()\<close> are
  the attribute dictionaries of the out-edges of a state. The order in which a Python
  dictionary is listed is not specified by the source; the model lists in insertion
  order.
\<close>

definition remove_node :: "'d graph \<Rightarrow> 'd state \<Rightarrow> 'd graph" where
  "remove_node g n =
     g\<lparr>nodes := removeAll n (nodes g),
       edges := filter (\<lambda>((a, b), attr). a \<noteq> n \<and> b \<noteq> n) (edges g)\<rparr>"

definition remove_edge :: "'d graph \<Rightarrow> 'd state \<Rightarrow> 'd state \<Rightarrow> 'd graph" where
  "remove_edge g x y = g\<lparr>edges := AList.delete (x, y) (edges g)\<rparr>"

definition graph_edges :: "'d graph \<Rightarrow> (('d state \<times> 'd state) \<times> edge_attr) list" where
  "graph_edges g = concat (map (\<lambda>n. filter (\<lambda>((a, b), attr). a = n) (edges g)) (nodes g))"

definition out_weights :: "'d graph \<Rightarrow> 'd state \<Rightarrow> double list" where
  "out_weights g s = map (\<lambda>(ab, attr). weight attr) (filter (\<lambda>((a, b), attr). a = s) (edges g))"

text \<open>The dictionary \<open>{ xs[i]: i for i in xrange( n ) }\<close>.\<close>

definition index_dict :: "'a list \<Rightarrow> nat \<Rightarrow> ('a \<rightharpoonup> nat)" where
  "index_dict xs n = fold (\<lambda>i d. d(xs ! i \<mapsto> i)) [0..<n] Map.empty"

datatype merge_policy = MergeAll | MergePartial | MergeNone

text \<open>
  The first loop, \<open>while merge == 'all'\<close>, removes orphan states. The two count arrays
  are allocated once before the loop and are not reset between its rounds.
\<close>

definition count_pass ::
  "'d graph \<Rightarrow> nat list \<Rightarrow> nat list \<Rightarrow> error + nat list \<times> nat list" where
  "count_pass g in_count out_count =
     (let indices = index_dict (nodes g) (length (nodes g))
      in fold_err (\<lambda>((a, b), attr) (in_count, out_count).
                     case (indices a, indices b) of
                       (Some ia, Some ib) \<Rightarrow>
                         Inr (in_count[ib := in_count ! ib + 1],
                              out_count[ia := out_count ! ia + 1])
                     | _ \<Rightarrow> Inl KeyError)
                  (graph_edges g) (in_count, out_count))"

definition orphan_pass ::
  "'d state \<Rightarrow> 'd state \<Rightarrow> nat list \<Rightarrow> nat list \<Rightarrow> 'd graph \<Rightarrow> 'd graph \<times> nat" where
  "orphan_pass start end in_count out_count g =
     (let prestates = nodes g
      in fold (\<lambda>i (g, merge_count).
                 if prestates ! i = start \<or> prestates ! i = end then (g, merge_count)
                 else if in_count ! i = 0 then (remove_node g (prestates ! i), merge_count + 1)
                 else if out_count ! i = 0 then (remove_node g (prestates ! i), merge_count + 1)
                 else (g, merge_count))
              [0..<length prestates] (g, 0))"

partial_function (option) prune_loop ::
  "'d state \<Rightarrow> 'd state \<Rightarrow> nat list \<Rightarrow> nat list \<Rightarrow> 'd graph \<Rightarrow> (error + 'd graph) option" where
  "prune_loop start end in_count out_count g =
     (case count_pass g in_count out_count of
        Inl e \<Rightarrow> Some (Inl e)
      | Inr (in_count, out_count) \<Rightarrow>
          (case orphan_pass start end in_count out_count g of
             (g, merge_count) \<Rightarrow>
               if merge_count = 0 then Some (Inr g)
               else prune_loop start end in_count out_count g))"

text \<open>
  The normalization pass. \<open>round( x, 8 )\<close> is Python 2's: to eight decimals, halves
  away from zero.
\<close>

fun py_round8 :: "double \<Rightarrow> double" where
  "py_round8 (Fin x) =
     Fin (if 0 \<le> x then of_int \<lfloor>x * 10 ^ 8 + 1 / 2\<rfloor> / 10 ^ 8
          else - (of_int \<lfloor>- x * 10 ^ 8 + 1 / 2\<rfloor> / 10 ^ 8))"
| "py_round8 x = x"

definition normalize_state :: "'d state \<Rightarrow> 'd state \<Rightarrow> 'd graph \<Rightarrow> 'd graph" where
  "normalize_state end state g =
     (let out_edges = py_round8 (dsum (map cexp (out_weights g state)))
      in if out_edges \<noteq> Fin 1 \<and> state \<noteq> end
         then g\<lparr>edges := map (\<lambda>((a, b), attr).
                              if a = state
                              then ((a, b), attr\<lparr>weight := weight attr - log' out_edges\<rparr>)
                              else ((a, b), attr)) (edges g)\<rparr>
         else g)"

definition normalize :: "'d state \<Rightarrow> 'd graph \<Rightarrow> 'd graph" where
  "normalize end g = fold (normalize_state end) (nodes g) g"

text \<open>
  The merge loop, \<open>while merge in ['all', 'partial']\<close>. Both \<open>for\<close> loops run over a
  list of the edges taken when the loop starts. The attribute dictionary \<open>e\<close> of the
  edge \<open>a \<rightarrow> b\<close> is the one in the graph (networkx updates the dictionary of an existing
  edge in place), so it is read from the graph when the edge comes up, and it follows
  the one update the inner loop can make to it (redirecting a self-loop of \<open>a\<close> onto
  \<open>a \<rightarrow> b\<close>); the dictionaries \<open>d\<close> are not touched before they are read.
\<close>

definition redirect_pass ::
  "'d state \<Rightarrow> 'd state \<Rightarrow> edge_attr \<Rightarrow> 'd graph \<Rightarrow> nat \<Rightarrow> 'd graph \<times> nat" where
  "redirect_pass a b e g merge_count =
     (case fold (\<lambda>((x, y), d) (g, merge_count, e).
                   if y = a then
                     (let attr = \<lparr>weight = weight d,
                                  pseudocount = max (pseudocount e) (pseudocount d)\<rparr>
                      in (add_edge (remove_edge g x y) x b attr, merge_count + 1,
                          if x = a \<and> b \<noteq> a then attr else e))
                   else (g, merge_count, e))
                (graph_edges g) (g, merge_count, e) of
        (g, merge_count, e) \<Rightarrow> (remove_node g a, merge_count))"

definition merge_pass ::
  "merge_policy \<Rightarrow> 'd state \<Rightarrow> 'd state \<Rightarrow> 'd graph \<Rightarrow> 'd graph \<times> nat" where
  "merge_pass merge start end g =
     fold (\<lambda>((a, b), attr) (g, merge_count).
             if a \<notin> set (nodes g) \<or> b \<notin> set (nodes g) then (g, merge_count)
             else if a = start \<or> b = end then (g, merge_count)
             else case map_of (edges g) (a, b) of
                    None \<Rightarrow> (g, merge_count)
                  | Some e \<Rightarrow>
                      if weight e = Fin 0 \<and> is_silent a
                         \<and> (merge = MergeAll \<or> (merge = MergePartial \<and> is_silent b))
                      then redirect_pass a b e g merge_count
                      else (g, merge_count))
          (graph_edges g) (g, 0)"

partial_function (option) merge_loop ::
  "merge_policy \<Rightarrow> 'd state \<Rightarrow> 'd state \<Rightarrow> 'd graph \<Rightarrow> 'd graph option" where
  "merge_loop merge start end g =
     (case merge_pass merge start end g of
        (g, merge_count) \<Rightarrow>
          if merge_count = 0 then Some g else merge_loop merge start end g)"

text \<open>
  The part of \<open>bake\<close> that edits the graph: pruning, normalization, merging. \<open>None\<close> is
  for a loop that does not end.
\<close>

definition bake_graph ::
  "merge_policy \<Rightarrow> 'd state \<Rightarrow> 'd state \<Rightarrow> 'd graph \<Rightarrow> (error + 'd graph) option" where
  "bake_graph merge start end g =
     (case (if merge = MergeAll
            then prune_loop start end (replicate (length (nodes g)) 0)
                   (replicate (length (nodes g)) 0) g
            else Some (Inr g)) of
        None \<Rightarrow> None
      | Some (Inl e) \<Rightarrow> Some (Inl e)
      | Some (Inr g) \<Rightarrow>
          (let g = normalize end g
           in if merge = MergeAll \<or> merge = MergePartial
              then map_option Inr (merge_loop merge start end g)
              else Some (Inr g)))"

text \<open>
  The rest of \<open>bake\<close> orders the states and fills the arrays.
  \<open>networkx.topological_sort\<close> is the parameter \<open>topological_sort\<close>. The scan for a free
  slot (\<open>while self.in_transitions[ start ] != -1\<close>) is \<open>free_slot\<close>.
\<close>

fun cumsum_from :: "nat \<Rightarrow> nat list \<Rightarrow> nat list" where
  "cumsum_from acc [] = []"
| "cumsum_from acc (x # xs) = (acc + x) # cumsum_from (acc + x) xs"

definition cumsum :: "nat list \<Rightarrow> nat list" where
  "cumsum xs = cumsum_from 0 xs"

function free_slot :: "int list \<Rightarrow> nat \<Rightarrow> nat \<Rightarrow> error + nat" where
  "free_slot transitions stop start =
     (if length transitions \<le> start then Inl IndexError
      else if transitions ! start \<noteq> - 1
      then (if start = stop then Inr start else free_slot transitions stop (start + 1))
      else Inr start)"
  by pat_completeness auto
termination
  by (relation "measure (\<lambda>(transitions, stop, start). length transitions - start)") auto

record edge_store =
  transitions :: "int list"
  log_probabilities :: "double list"
  pseudocounts :: "real list"

definition store_edge ::
  "nat list \<Rightarrow> nat \<Rightarrow> nat \<Rightarrow> edge_attr \<Rightarrow> edge_store \<Rightarrow> error + edge_store" where
  "store_edge edge_count owner other data st =
     bind_err (free_slot (transitions st) (edge_count ! (owner + 1)) (edge_count ! owner))
       (\<lambda>start. Inr \<lparr>transitions = (transitions st)[start := int other],
                     log_probabilities = (log_probabilities st)[start := weight data],
                     pseudocounts = (pseudocounts st)[start := pseudocount data]\<rparr>)"

text \<open>\<open>self.graph.subgraph( silent_states )\<close>.\<close>

definition silent_subgraph :: "'d graph \<Rightarrow> 'd graph" where
  "silent_subgraph g =
     (let silent_states = filter is_silent (nodes g)
      in \<lparr>nodes = silent_states,
          edges = filter (\<lambda>((a, b), attr). a \<in> set silent_states \<and> b \<in> set silent_states)
                    (edges g)\<rparr>)"

definition compile ::
  "('d graph \<Rightarrow> error + 'd state list) \<Rightarrow> 'd state \<Rightarrow> 'd state \<Rightarrow> 'd graph \<Rightarrow> error + 'd model" where
  "compile topological_sort start end g =
     (let n = length (nodes g);
          m = length (graph_edges g);
          normal_states = filter (\<lambda>s. \<not> is_silent s) (nodes g)
      in bind_err (topological_sort (silent_subgraph g)) (\<lambda>silent_states_sorted.
         let sts = normal_states @ silent_states_sorted;
             silent_start' = length normal_states
         in if length sts < n then Inl IndexError
            else
         let indices = index_dict sts n;
             weights = map (\<lambda>i. clog (Fin (state_weight (sts ! i)))) [0..<silent_start']
         in bind_err
              (fold_err (\<lambda>((a, b), attr) (in_count, out_count).
                           case (indices a, indices b) of
                             (Some ia, Some ib) \<Rightarrow>
                               Inr (in_count[ib + 1 := in_count ! (ib + 1) + 1],
                                    out_count[ia + 1 := out_count ! (ia + 1) + 1])
                           | _ \<Rightarrow> Inl KeyError)
                        (graph_edges g)
                        (replicate (length sts + 1) 0, replicate (length sts + 1) 0))
              (\<lambda>(in_count, out_count).
         case indices end of
           None \<Rightarrow> Inl KeyError
         | Some ie \<Rightarrow>
         let finite'' = (if in_count ! (ie + 1) = 0 then 0 else 1);
             in_count = cumsum in_count;
             out_count = cumsum out_count;
             empty = \<lparr>transitions = replicate m (- 1), log_probabilities = replicate m (Fin 0),
                      pseudocounts = replicate m 0\<rparr>
         in bind_err
              (fold_err (\<lambda>((a, b), data) (ins, outs).
                           case (indices a, indices b) of
                             (Some ia, Some ib) \<Rightarrow>
                               bind_err (store_edge in_count ib ia data ins) (\<lambda>ins.
                               bind_err (store_edge out_count ia ib data outs) (\<lambda>outs.
                               Inr (ins, outs)))
                           | _ \<Rightarrow> Inl KeyError)
                        (graph_edges g) (empty, empty))
              (\<lambda>(ins, outs).
         case (indices start, indices end) of
           (Some si, Some ei) \<Rightarrow>
             Inr \<lparr>states = sts, start_index = si, end_index = ei,
                  silent_start = silent_start',
                  in_edge_count = in_count, in_transitions = transitions ins,
                  in_transition_log_probabilities = log_probabilities ins,
                  in_transition_pseudocounts = pseudocounts ins,
                  out_edge_count = out_count, out_transitions = transitions outs,
                  out_transition_log_probabilities = log_probabilities outs,
                  out_transition_pseudocounts = pseudocounts outs,
                  state_weights = weights, finite' = finite''\<rparr>
         | _ \<Rightarrow> Inl SyntaxError))))"

definition bake ::
  "('d graph \<Rightarrow> error + 'd state list) \<Rightarrow> merge_policy \<Rightarrow> 'd state \<Rightarrow> 'd state \<Rightarrow> 'd graph
   \<Rightarrow> (error + 'd graph \<times> 'd model) option" where
  "bake topological_sort merge start end g =
     (case bake_graph merge start end g of
        None \<Rightarrow> None
      | Some (Inl e) \<Rightarrow> Some (Inl e)
      | Some (Inr g) \<Rightarrow>
          Some (bind_err (compile topological_sort start end g) (\<lambda>M. Inr (g, M))))"

text \<open>
  What \<open>networkx.topological_sort\<close> promises of the list it returns: it lists the nodes
  of the graph once each, every edge going from an earlier node to a later one.
\<close>

definition topological_order :: "'d graph \<Rightarrow> 'd state list \<Rightarrow> bool" where
  "topological_order sub order =
     (distinct order \<and> set order = set (nodes sub) \<and>
      (\<forall>((a, b), attr) \<in> set (edges sub).
         \<exists>i j. i < j \<and> j < length order \<and> order ! i = a \<and> order ! j = b))"

text \<open>
  The sum of \<open>exp( out_transition_log_probabilities )\<close> over the out-edges of state \<open>k\<close>
  of a compiled model, and the test that a sum is \<open>1\<close> within \<open>1e-8\<close>.
\<close>

definition outgoing_sum :: "'d model \<Rightarrow> nat \<Rightarrow> double" where
  "outgoing_sum M k =
     dsum (map (\<lambda>l. cexp (out_transition_log_probabilities M ! l))
             [out_edge_count M ! k ..< out_edge_count M ! (k + 1)])"

definition sums_to_one :: "double \<Rightarrow> bool" where
  "sums_to_one x = (case x of Fin z \<Rightarrow> \<bar>z - 1\<bar> \<le> 1 / 10 ^ 8 | _ \<Rightarrow> False)"

section \<open>Forward, backward and the sequence log-probability\<close>

text \<open>
  The emission table \<open>e[k, i] = states[i].distribution.log_probability( sequence[k] )\<close>
  for \<open>i < silent_start\<close>. The method \<open>log_probability\<close> of the distribution classes is
  the parameter \<open>lp\<close>. The kernels allocate their tables before they fill this one:
  the DP table \<open>cvarray( shape=(n+1, m) )\<close> and the emission table
  \<open>cvarray( shape=(n, self.silent_start) )\<close>, and \<open>cvarray\<close> raises a \<open>ValueError\<close> for an
  axis of length zero. So an empty sequence, a model without states and a model without
  emitting states make the call fail with a \<open>ValueError\<close>. After that a state below
  \<open>silent_start\<close> without a distribution makes it fail with an \<open>AttributeError\<close>.
\<close>

definition emission_table ::
  "('d \<Rightarrow> 'o \<Rightarrow> double) \<Rightarrow> 'd model \<Rightarrow> 'o list \<Rightarrow> error + double list list" where
  "emission_table lp M sequence =
     (if length (states M) = 0 \<or> length sequence = 0 \<or> silent_start M = 0
      then Inl ValueError
      else if list_ex (\<lambda>i. distribution (states M ! i) = None) [0..<silent_start M]
      then Inl AttributeError
      else Inr (map (\<lambda>x. map (\<lambda>i. lp (the (distribution (states M ! i))) x)
                             [0..<silent_start M]) sequence))"




text \<open>The normalizing weight of a row: \<open>c = clog( sum of cexp( row[l] ) )\<close>.\<close>

definition row_weight :: "double list \<Rightarrow> double" where
  "row_weight row = clog (fold (\<lambda>l c. c + cexp (row ! l)) [0..<length row] (Fin 0))"




text \<open>
  The inner loop of the backward passes, over the out-edge slots \<open>l\<close> of state \<open>k\<close> with
  \<open>li = out_transitions[l]\<close>, continuing an accumulator \<open>acc\<close>; \<open>term l li\<close> is the
  summand.
\<close>

definition out_lse ::
  "'d model \<Rightarrow> (nat \<Rightarrow> bool) \<Rightarrow> (nat \<Rightarrow> nat \<Rightarrow> double) \<Rightarrow> nat \<Rightarrow> double \<Rightarrow> double" where
  "out_lse M skip term k acc =
     fold (\<lambda>l log_probability.
             let li = nat (out_transitions M ! l)
             in if skip li then log_probability
                else pair_lse log_probability (term l li))
          [out_edge_count M ! k ..< out_edge_count M ! (k + 1)] acc"

text \<open>
  Row \<open>n\<close>. In a finite model: \<open>0\<close> at the end state, then the silent states from the
  last down (the end state skipped), then the emitting states. In an infinite model the
  row is \<open>e[n-1, i]\<close> on the emitting states, which is an \<open>IndexError\<close> on an empty
  sequence.
\<close>

definition backward_rown :: "'d model \<Rightarrow> double list list \<Rightarrow> nat \<Rightarrow> error + double list" where
  "backward_rown M e n =
     (let m = length (states M) in
      if finite' M = 1 then
        (let b0 = (replicate m NEGINF)[end_index M := Fin 0];
             silent = fold (\<lambda>kr b. let k = m - kr - 1 in
                         if k = end_index M then b
                         else b[k := out_lse M (\<lambda>li. li < k + 1)
                                      (\<lambda>l li. b ! li + out_transition_log_probabilities M ! l)
                                      k NEGINF])
                       [0..<m - silent_start M] b0
         in Inr (map (\<lambda>k. out_lse M (\<lambda>li. li < silent_start M)
                            (\<lambda>l li. silent ! li + out_transition_log_probabilities M ! l)
                            k NEGINF) [0..<silent_start M]
                 @ drop (silent_start M) silent))
      else if n = 0 \<and> 0 < silent_start M then Inl IndexError
      else Inr (map (\<lambda>i. e ! (n - 1) ! i) [0..<silent_start M]
                @ replicate (m - silent_start M) NEGINF))"

text \<open>
  Row \<open>i\<close> from row \<open>i+1\<close>, before it is rescaled: the silent states from the emitting
  states of the next row, the silent states from the later silent states of this row
  (from the last down, in place), then the emitting states.
\<close>

definition backward_step :: "'d model \<Rightarrow> double list \<Rightarrow> double list \<Rightarrow> double list" where
  "backward_step M e_i b_next =
     (let m = length (states M);
          first_pass = replicate (silent_start M) NaN
            @ map (\<lambda>k. out_lse M (\<lambda>li. silent_start M \<le> li)
                          (\<lambda>l li. b_next ! li + out_transition_log_probabilities M ! l + e_i ! li)
                          k NEGINF) [silent_start M ..< m];
          silent = fold (\<lambda>kr b. let k = m - kr - 1 in
                      b[k := pair_lse
                               (out_lse M (\<lambda>li. li < k + 1)
                                  (\<lambda>l li. b ! li + out_transition_log_probabilities M ! l)
                                  k NEGINF)
                               (b ! k)])
                    [0..<m - silent_start M] first_pass
      in map (\<lambda>k. out_lse M (\<lambda>li. li < silent_start M)
                     (\<lambda>l li. silent ! li + out_transition_log_probabilities M ! l) k
                     (out_lse M (\<lambda>li. silent_start M \<le> li)
                        (\<lambda>l li. b_next ! li + out_transition_log_probabilities M ! l + e_i ! li)
                        k NEGINF))
             [0..<silent_start M]
         @ drop (silent_start M) silent)"

text \<open>
  The recurrence runs \<open>i = n-1, ..., 0\<close>; the state is the rows \<open>i+1, ..., n\<close> and their
  weights (\<open>c[n]\<close> stays \<open>0\<close>); each step puts the rescaled row \<open>i\<close> in front.
\<close>

definition backward_rows ::
  "'d model \<Rightarrow> double list list \<Rightarrow> nat \<Rightarrow> double list \<Rightarrow> double list list \<times> double list" where
  "backward_rows M e n bn =
     fold (\<lambda>ir (b, c).
             let i = n - ir - 1;
                 row = backward_step M (e ! i) (hd b);
                 ci = row_weight row
             in (map (\<lambda>x. x - ci) row # b, ci # c))
          [0..<n] ([bn], [Fin 0])"

text \<open>\<open>_backward\<close>: the table, every entry of row \<open>i\<close> with \<open>c[i], ..., c[n]\<close> added back.\<close>

definition backward' ::
  "('d \<Rightarrow> 'o \<Rightarrow> double) \<Rightarrow> 'd model \<Rightarrow> 'o list \<Rightarrow> error + double list list" where
  "backward' lp M sequence =
     (case emission_table lp M sequence of
        Inl err \<Rightarrow> Inl err
      | Inr e \<Rightarrow>
          let n = length sequence in
          case backward_rown M e n of
            Inl err \<Rightarrow> Inl err
          | Inr bn \<Rightarrow>
              let (b, c) = backward_rows M e n bn
              in Inr (map (\<lambda>i. map (\<lambda>x. fold (\<lambda>k x. x + c ! k) [i..<n + 1] x) (b ! i))
                           [0..<n + 1]))"

section \<open>Viterbi\<close>

text \<open>
  A cell of the Viterbi table is its score \<open>v[i, l]\<close> with its traceback entry
  \<open>(tracebackx[i, l], tracebacky[i, l])\<close>; \<open>None\<close> is an entry never written (the arrays
  are allocated uninitialised). The inner loop over the in-edge slots \<open>k\<close> of state \<open>l\<close>:
  \<open>state_log_probability = cand k ki\<close>, and a new winner when it is greater than the
  score so far, pointing back at row \<open>x\<close>, state \<open>ki\<close>.
\<close>

type_synonym cell = "double \<times> (nat \<times> nat) option"

definition in_max ::
  "'d model \<Rightarrow> (nat \<Rightarrow> bool) \<Rightarrow> (nat \<Rightarrow> nat \<Rightarrow> double) \<Rightarrow> nat \<Rightarrow> nat \<Rightarrow> cell \<Rightarrow> cell" where
  "in_max M skip cand x l start =
     fold (\<lambda>k (v, tb).
             let ki = nat (in_transitions M ! k)
             in if skip ki then (v, tb)
                else let state_log_probability = cand k ki
                     in if v < state_log_probability
                        then (state_log_probability, Some (x, ki))
                        else (v, tb))
          [in_edge_count M ! l ..< in_edge_count M ! (l + 1)] start"

definition viterbi_row0 :: "'d model \<Rightarrow> cell list" where
  "viterbi_row0 M =
     fold (\<lambda>l v0. if l = start_index M then v0
                   else v0[l := in_max M (\<lambda>ki. ki < silent_start M \<or> l \<le> ki)
                                  (\<lambda>k ki. fst (v0 ! ki) + in_transition_log_probabilities M ! k)
                                  0 l (v0 ! l)])
          [silent_start M ..< length (states M)]
          ((replicate (length (states M)) (NEGINF, None))[start_index M := (Fin 0, None)])"

definition viterbi_step :: "'d model \<Rightarrow> nat \<Rightarrow> double list \<Rightarrow> cell list \<Rightarrow> cell list" where
  "viterbi_step M i e_i v_i =
     (let emitting =
            map (\<lambda>l. in_max M (\<lambda>ki. False)
                        (\<lambda>k ki. fst (v_i ! ki) + in_transition_log_probabilities M ! k + e_i ! l)
                        i l (NEGINF, None))
                [0..<silent_start M];
          first_pass = emitting @
            map (\<lambda>l. in_max M (\<lambda>ki. silent_start M \<le> ki)
                        (\<lambda>k ki. fst (emitting ! ki) + in_transition_log_probabilities M ! k)
                        (i + 1) l (NEGINF, None))
                [silent_start M ..< length (states M)]
      in fold (\<lambda>l row. row[l := in_max M (\<lambda>ki. ki < silent_start M \<or> l \<le> ki)
                                   (\<lambda>k ki. fst (row ! ki) + in_transition_log_probabilities M ! k)
                                   (i + 1) l (row ! l)])
              [silent_start M ..< length (states M)] first_pass)"

definition viterbi_rows :: "'d model \<Rightarrow> double list list \<Rightarrow> nat \<Rightarrow> cell list list" where
  "viterbi_rows M e n =
     fold (\<lambda>i v. v @ [viterbi_step M i (e ! i) (v ! i)]) [0..<n] [viterbi_row0 M]"

text \<open>
  The emission table of \<open>_viterbi\<close> adds the state's log weight. The tables are
  allocated the same way, with the same \<open>ValueError\<close> for an axis of length zero.
\<close>

definition weighted_emission_table ::
  "('d \<Rightarrow> 'o \<Rightarrow> double) \<Rightarrow> 'd model \<Rightarrow> 'o list \<Rightarrow> error + double list list" where
  "weighted_emission_table lp M sequence =
     (if length (states M) = 0 \<or> length sequence = 0 \<or> silent_start M = 0
      then Inl ValueError
      else if list_ex (\<lambda>i. distribution (states M ! i) = None) [0..<silent_start M]
      then Inl AttributeError
      else Inr (map (\<lambda>x. map (\<lambda>i. lp (the (distribution (states M ! i))) x + state_weights M ! i)
                             [0..<silent_start M]) sequence))"

text \<open>
  \<open>numpy.argmax\<close>: the first index of the maximum, a \<open>NaN\<close> counting as the maximum;
  a \<open>ValueError\<close> on an empty row.
\<close>

definition argmax :: "double list \<Rightarrow> nat" where
  "argmax xs =
     fold (\<lambda>j best. if xs ! best < xs ! j \<or> (xs ! j = NaN \<and> xs ! best \<noteq> NaN) then j else best)
          [1..<length xs] 0"

text \<open>
  The traceback loop, \<open>while px != 0 or py != self.start_index\<close>. It gives \<open>None\<close> when
  it reads an entry that was never written, or does not end.
\<close>

partial_function (option) traceback ::
  "cell list list \<Rightarrow> 'd state list \<Rightarrow> nat \<Rightarrow> nat \<Rightarrow> nat \<Rightarrow> (nat \<times> 'd state) list
   \<Rightarrow> (nat \<times> 'd state) list option" where
  "traceback v sts start px py path =
     (if px \<noteq> 0 \<or> py \<noteq> start then
        (case snd (v ! px ! py) of
           None \<Rightarrow> None
         | Some (npx, npy) \<Rightarrow> traceback v sts start npx npy (path @ [(px, sts ! py)]))
      else Some (path @ [(px, sts ! py)]))"

text \<open>
  \<open>_viterbi\<close>. The result is \<open>None\<close> when the traceback gives none; otherwise the
  exception raised, or the pair of the log-likelihood and the path (\<open>None\<close> for
  Python's \<open>None\<close>).
\<close>

definition viterbi_end :: "'d model \<Rightarrow> cell list list \<Rightarrow> nat \<Rightarrow> nat" where
  "viterbi_end M v n = (if finite' M = 1 then end_index M else argmax (map fst (v ! n)))"

definition viterbi' ::
  "('d \<Rightarrow> 'o \<Rightarrow> double) \<Rightarrow> 'd model \<Rightarrow> 'o list
   \<Rightarrow> (error + double \<times> (nat \<times> 'd state) list option) option" where
  "viterbi' lp M sequence =
     (case weighted_emission_table lp M sequence of
        Inl err \<Rightarrow> Some (Inl err)
      | Inr e \<Rightarrow>
          let n = length sequence;
              v = viterbi_rows M e n
          in if finite' M \<noteq> 1 \<and> v ! n = [] then Some (Inl ValueError)
             else
               let end_index' = viterbi_end M v n;
                   log_likelihood = fst (v ! n ! end_index')
               in if log_likelihood = NEGINF then Some (Inr (log_likelihood, None))
                  else (case traceback v (states M) (start_index M) n end_index' [] of
                          None \<Rightarrow> None
                        | Some path \<Rightarrow> Some (Inr (log_likelihood, Some (rev path)))))"

section \<open>Sampling\<close>

text \<open>
  \<open>_sample\<close>. \<open>random.random()\<close> reads the stream \<open>rng\<close> at a position that advances;
  \<open>state.distribution.sample()\<close> is the parameter \<open>draw\<close>, which also reads the stream.
  The loop variable \<open>k\<close> of the source outlives its loops, and the source reads it
  afterwards, so it is part of the state.
\<close>

definition cum_probabilities :: "'d model \<Rightarrow> double list" where
  "cum_probabilities M =
     fold (\<lambda>k cum.
             snd (fold (\<lambda>l (cumulative_probability, cum).
                          let cumulative_probability =
                                cumulative_probability
                                  + cexp (out_transition_log_probabilities M ! l)
                          in (cumulative_probability, cum[l := cumulative_probability]))
                       [out_edge_count M ! k ..< out_edge_count M ! (k + 1)] (Fin 0, cum)))
          [0..<length (states M)]
          (replicate (length (out_transitions M)) (Fin 0))"

text \<open>
  \<open>for k in xrange( a, b ): if cum_probabilities[k] > sample: i = out_transitions[k]; break\<close>,
  on the pair \<open>(i, k)\<close>.
\<close>

fun pick :: "'d model \<Rightarrow> double list \<Rightarrow> double \<Rightarrow> nat list \<Rightarrow> nat \<times> nat \<Rightarrow> nat \<times> nat" where
  "pick M cum sample [] (i, k) = (i, k)"
| "pick M cum sample (k' # ks) (i, k) =
     (if sample < cum ! k' then (nat (out_transitions M ! k'), k')
      else pick M cum sample ks (i, k'))"

record ('d, 'o) walk =
  position :: nat
  emitted :: nat
  emissions :: "'o list"
  sequence_path :: "'d state list"
  rng_pos :: nat
  loop_k :: nat

partial_function (option) sample_loop ::
  "('d \<Rightarrow> (nat \<Rightarrow> real) \<Rightarrow> nat \<Rightarrow> 'o \<times> nat) \<Rightarrow> (nat \<Rightarrow> real) \<Rightarrow> 'd model \<Rightarrow> double list \<Rightarrow>
   nat \<Rightarrow> bool \<Rightarrow> ('d, 'o) walk \<Rightarrow> (error + 'o list \<times> 'd state list option) option" where
  "sample_loop draw rng M cum length' path w =
     (let finish = (\<lambda>w. Some (Inr (emissions w,
                      if path then Some (sequence_path w @ [states M ! end_index M]) else None)))
      in
      if position w = end_index M then finish w
      else
        let i = position w;
            state = states M ! i;
            w = w\<lparr>sequence_path := sequence_path w @ [state]\<rparr>;
            w = (case distribution state of
                   None \<Rightarrow> w
                 | Some d \<Rightarrow>
                     let (x, pos) = draw d rng (rng_pos w)
                     in w\<lparr>emissions := emissions w @ [x], emitted := emitted w + 1,
                          rng_pos := pos\<rparr>)
        in if length' \<noteq> 0 \<and> length' \<le> emitted w
           then Some (Inr (emissions w, if path then Some (sequence_path w) else None))
           else
             let sample = Fin (rng (rng_pos w));
                 w = w\<lparr>rng_pos := rng_pos w + 1\<rparr>;
                 j = i;
                 (i, k) = pick M cum sample
                            [out_edge_count M ! i ..< out_edge_count M ! (i + 1)] (i, loop_k w)
             in if length' \<noteq> 0 \<and> finite' M = 1 \<and> i = end_index M then
                  if out_edge_count M ! (j + 1) - out_edge_count M ! j = 1
                     \<and> nat (out_transitions M ! (out_edge_count M ! j)) = end_index M
                  then finish (w\<lparr>position := i, loop_k := k\<rparr>)
                  else if length (out_edge_count M) \<le> k + 1 then Some (Inl IndexError)
                  else
                    let (cumulative_probability, k) =
                          fold (\<lambda>k' (cp, k).
                                  (if nat (out_transitions M ! k') \<noteq> end_index M
                                   then cp + cum ! k' else cp, k'))
                               [out_edge_count M ! k ..< out_edge_count M ! (k + 1)] (Fin 0, k);
                        sample = Fin 0 + (cumulative_probability - Fin 0) * Fin (rng (rng_pos w));
                        w = w\<lparr>rng_pos := rng_pos w + 1\<rparr>;
                        (i, k) = pick M cum sample
                                   [out_edge_count M ! i ..< out_edge_count M ! (i + 1)] (i, k)
                    in sample_loop draw rng M cum length' path (w\<lparr>position := i, loop_k := k\<rparr>)
                else sample_loop draw rng M cum length' path (w\<lparr>position := i, loop_k := k\<rparr>))"

definition sample' ::
  "('d \<Rightarrow> (nat \<Rightarrow> real) \<Rightarrow> nat \<Rightarrow> 'o \<times> nat) \<Rightarrow> (nat \<Rightarrow> real) \<Rightarrow> nat \<Rightarrow> 'd model \<Rightarrow> nat \<Rightarrow> bool
   \<Rightarrow> (error + 'o list \<times> 'd state list option) option" where
  "sample' draw rng pos M length' path =
     sample_loop draw rng M (cum_probabilities M) length' path
       \<lparr>position = start_index M, emitted = 0, emissions = [], sequence_path = [],
        rng_pos = pos, loop_k = length (states M) - 1\<rparr>"

section \<open>Probabilities behind the doubles\<close>

text \<open>
  A log-probability is \<open>good\<close> when it is \<open>NEGINF\<close> or a finite number; \<open>prob\<close> is the
  probability it stands for.
\<close>

definition good :: "double \<Rightarrow> bool" where
  "good x = (case x of Fin r \<Rightarrow> True | NEGINF \<Rightarrow> True | _ \<Rightarrow> False)"

definition prob :: "double \<Rightarrow> real" where
  "prob x = (case x of Fin r \<Rightarrow> exp r | _ \<Rightarrow> 0)"

text \<open>
  The transition matrix that the two edge stores hold: \<open>in_matrix M k l\<close> is the
  probability of \<open>k \<rightarrow> l\<close> read from the in-edges of \<open>l\<close>, \<open>out_matrix M k l\<close> the same
  read from the out-edges of \<open>k\<close>.
\<close>

definition in_matrix :: "'d model \<Rightarrow> nat \<Rightarrow> nat \<Rightarrow> real" where
  "in_matrix M k l =
     sum_list (map (\<lambda>j. if nat (in_transitions M ! j) = k
                          then prob (in_transition_log_probabilities M ! j) else 0)
                 [in_edge_count M ! l ..< in_edge_count M ! (l + 1)])"

definition out_matrix :: "'d model \<Rightarrow> nat \<Rightarrow> nat \<Rightarrow> real" where
  "out_matrix M k l =
     sum_list (map (\<lambda>j. if nat (out_transitions M ! j) = l
                          then prob (out_transition_log_probabilities M ! j) else 0)
                 [out_edge_count M ! k ..< out_edge_count M ! (k + 1)])"

text \<open>
  The shape of a baked model, which the kernels rely on: the start and the end state
  are silent states; the edge slots of every state lie inside the edge arrays and hold
  state indices and log-probabilities (\<open>NEGINF\<close> or finite); an edge between two silent
  states goes from the lower index to the higher; the in-edge store and the out-edge
  store hold the same transitions; the states below \<open>silent_start\<close> have a distribution.
\<close>

definition wf_model :: "'d model \<Rightarrow> bool" where
  "wf_model M =
     (let m = length (states M); s = silent_start M in
      s \<le> start_index M \<and> start_index M < m \<and> s \<le> end_index M \<and> end_index M < m \<and>
      length (in_edge_count M) = m + 1 \<and> length (out_edge_count M) = m + 1 \<and>
      (\<forall>l \<in> set [0..<m].
         \<forall>j \<in> set [in_edge_count M ! l ..< in_edge_count M ! (l + 1)].
           j < length (in_transitions M) \<and> j < length (in_transition_log_probabilities M) \<and>
           0 \<le> in_transitions M ! j \<and> nat (in_transitions M ! j) < m \<and>
           good (in_transition_log_probabilities M ! j) \<and>
           (s \<le> l \<and> s \<le> nat (in_transitions M ! j) \<longrightarrow> nat (in_transitions M ! j) < l)) \<and>
      (\<forall>k \<in> set [0..<m].
         \<forall>j \<in> set [out_edge_count M ! k ..< out_edge_count M ! (k + 1)].
           j < length (out_transitions M) \<and> j < length (out_transition_log_probabilities M) \<and>
           0 \<le> out_transitions M ! j \<and> nat (out_transitions M ! j) < m \<and>
           good (out_transition_log_probabilities M ! j) \<and>
           (s \<le> k \<and> s \<le> nat (out_transitions M ! j) \<longrightarrow> k < nat (out_transitions M ! j))) \<and>
      (\<forall>k \<in> set [0..<m]. \<forall>l \<in> set [0..<m]. in_matrix M k l = out_matrix M k l) \<and>
      (\<forall>i \<in> set [0..<s]. distribution (states M ! i) \<noteq> None))"

text \<open>The emissions of a sequence are log-probabilities: none is \<open>NaN\<close> or \<open>+inf\<close>.\<close>

definition good_emissions :: "('d \<Rightarrow> 'o \<Rightarrow> double) \<Rightarrow> 'd model \<Rightarrow> 'o list \<Rightarrow> bool" where
  "good_emissions lp M sequence =
     (\<forall>x \<in> set sequence. \<forall>i \<in> set [0..<silent_start M].
        good (lp (the (distribution (states M ! i))) x))"

section \<open>Example models\<close>

text \<open>
  A finite model with one emitting state \<open>A\<close>: \<open>start \<rightarrow> A\<close> with probability \<open>1\<close>,
  \<open>A \<rightarrow> A\<close> and \<open>A \<rightarrow> end\<close> with probability \<open>1/2\<close> each, as \<open>bake\<close> lays it out (the
  emitting state first). The distribution of \<open>A\<close> gives the symbol \<open>0\<close> probability one
  (a \<open>DiscreteDistribution\<close> \<open>{0: 1.0}\<close>); a distribution is represented by its
  \<open>log_probability\<close>, so \<open>lp\<close> is application, and its \<open>sample()\<close> takes one random
  number and returns \<open>0\<close>. \<open>loop_graph\<close> is the builder graph, \<open>loop_model\<close> what
  \<open>bake\<close> makes of it (\<open>loop_model_baked\<close> below).
\<close>

definition only_zero :: "nat \<Rightarrow> double" where
  "only_zero x = (if x = 0 then Fin 0 else NEGINF)"

definition apply_lp :: "(nat \<Rightarrow> double) \<Rightarrow> nat \<Rightarrow> double" where
  "apply_lp d x = d x"

definition draw_zero :: "(nat \<Rightarrow> double) \<Rightarrow> (nat \<Rightarrow> real) \<Rightarrow> nat \<Rightarrow> nat \<times> nat" where
  "draw_zero d rng pos = (0, pos + 1)"

definition state_A :: "(nat \<Rightarrow> double) state" where
  "state_A = \<lparr>identity = 0, distribution = Some only_zero, state_weight = 1\<rparr>"

definition state_start :: "(nat \<Rightarrow> double) state" where
  "state_start = \<lparr>identity = 1, distribution = None, state_weight = 1\<rparr>"

definition state_end :: "(nat \<Rightarrow> double) state" where
  "state_end = \<lparr>identity = 2, distribution = None, state_weight = 1\<rparr>"

definition empty_graph :: "(nat \<Rightarrow> double) graph" where
  "empty_graph = add_node (add_node \<lparr>nodes = [], edges = []\<rparr> state_start) state_end"

definition loop_graph :: "(nat \<Rightarrow> double) graph" where
  "loop_graph =
     add_transition
       (add_transition
          (add_transition (add_node empty_graph state_A) state_start state_A 1 None)
          state_A state_A (1 / 2) None)
       state_A state_end (1 / 2) None"

definition loop_model :: "(nat \<Rightarrow> double) model" where
  "loop_model =
     \<lparr>states = [state_A, state_start, state_end],
      start_index = 1, end_index = 2, silent_start = 1,
      in_edge_count = [0, 2, 2, 3], in_transitions = [1, 0, 0],
      in_transition_log_probabilities = [Fin 0, Fin (ln (1 / 2)), Fin (ln (1 / 2))],
      in_transition_pseudocounts = [1, 1 / 2, 1 / 2],
      out_edge_count = [0, 2, 3, 3], out_transitions = [0, 2, 0],
      out_transition_log_probabilities = [Fin (ln (1 / 2)), Fin (ln (1 / 2)), Fin 0],
      out_transition_pseudocounts = [1 / 2, 1 / 2, 1],
      state_weights = [Fin 0], finite' = 1\<rparr>"

text \<open>
  A graph with a transition of probability zero, \<open>start \<rightarrow> A\<close>, and \<open>A \<rightarrow> end\<close> with
  probability one; and a graph with a silent state \<open>S\<close> between \<open>start\<close> and \<open>A\<close> and
  probabilities that do not sum to one.
\<close>

definition zero_graph :: "(nat \<Rightarrow> double) graph" where
  "zero_graph =
     add_transition
       (add_transition (add_node empty_graph state_A) state_start state_A 0 None)
       state_A state_end 1 None"

definition state_S :: "(nat \<Rightarrow> double) state" where
  "state_S = \<lparr>identity = 3, distribution = None, state_weight = 1\<rparr>"

definition chain_graph :: "(nat \<Rightarrow> double) graph" where
  "chain_graph =
     add_transition
       (add_transition
          (add_transition (add_node (add_node empty_graph state_S) state_A)
             state_start state_S 2 None)
          state_S state_A 1 None)
       state_A state_end 1 None"

text \<open>
  What \<open>bake\<close> makes of these graphs: \<open>zero_baked\<close> and \<open>zero_model\<close> of
  \<open>zero_graph\<close> with \<open>merge='all'\<close>, \<open>chain_normalized\<close> and \<open>chain_model\<close> of
  \<open>chain_graph\<close> with \<open>merge=None\<close>.
\<close>

definition chain_normalized :: "(nat \<Rightarrow> double) graph" where
  "chain_normalized = \<lparr>nodes = [state_start, state_end, state_S, state_A],
     edges = [((state_start, state_S), \<lparr>weight = Fin 0, pseudocount = 2\<rparr>),
              ((state_S, state_A), \<lparr>weight = Fin 0, pseudocount = 1\<rparr>),
              ((state_A, state_end), \<lparr>weight = Fin 0, pseudocount = 1\<rparr>)]\<rparr>"

definition chain_model :: "(nat \<Rightarrow> double) model" where
  "chain_model =
     \<lparr>states = [state_A, state_start, state_end, state_S],
      start_index = 1, end_index = 2, silent_start = 1,
      in_edge_count = [0, 1, 1, 2, 3], in_transitions = [3, 0, 1],
      in_transition_log_probabilities = [Fin 0, Fin 0, Fin 0],
      in_transition_pseudocounts = [1, 1, 2],
      out_edge_count = [0, 1, 2, 2, 3], out_transitions = [2, 3, 0],
      out_transition_log_probabilities = [Fin 0, Fin 0, Fin 0],
      out_transition_pseudocounts = [1, 2, 1],
      state_weights = [Fin 0], finite' = 1\<rparr>"

definition zero_baked :: "(nat \<Rightarrow> double) graph" where
  "zero_baked = \<lparr>nodes = [state_start, state_end, state_A],
     edges = [((state_start, state_A), \<lparr>weight = NaN, pseudocount = 0\<rparr>),
              ((state_A, state_end), \<lparr>weight = Fin 0, pseudocount = 1\<rparr>)]\<rparr>"

definition zero_model :: "(nat \<Rightarrow> double) model" where
  "zero_model =
     \<lparr>states = [state_A, state_start, state_end],
      start_index = 1, end_index = 2, silent_start = 1,
      in_edge_count = [0, 1, 1, 2], in_transitions = [1, 0],
      in_transition_log_probabilities = [NaN, Fin 0],
      in_transition_pseudocounts = [0, 1],
      out_edge_count = [0, 1, 2, 2], out_transitions = [2, 0],
      out_transition_log_probabilities = [Fin 0, NaN],
      out_transition_pseudocounts = [1, 0],
      state_weights = [Fin 0], finite' = 1\<rparr>"

text \<open>
  A graph in which \<open>start\<close> reaches \<open>A\<close> both directly and through the silent state
  \<open>S\<close>, each with probability \<open>1/2\<close>, and what \<open>bake\<close> with \<open>merge='all'\<close> makes of
  it.
\<close>

definition diamond_graph :: "(nat \<Rightarrow> double) graph" where
  "diamond_graph =
     add_transition
       (add_transition
          (add_transition
             (add_transition (add_node (add_node empty_graph state_S) state_A)
                state_start state_S (1 / 2) None)
             state_start state_A (1 / 2) None)
          state_S state_A 1 None)
       state_A state_end 1 None"

definition diamond_baked :: "(nat \<Rightarrow> double) graph" where
  "diamond_baked = \<lparr>nodes = [state_start, state_end, state_A],
     edges = [((state_start, state_A), \<lparr>weight = Fin (ln (1 / 2)), pseudocount = 1\<rparr>),
              ((state_A, state_end), \<lparr>weight = Fin 0, pseudocount = 1\<rparr>)]\<rparr>"

definition diamond_model :: "(nat \<Rightarrow> double) model" where
  "diamond_model =
     \<lparr>states = [state_A, state_start, state_end],
      start_index = 1, end_index = 2, silent_start = 1,
      in_edge_count = [0, 1, 1, 2], in_transitions = [1, 0],
      in_transition_log_probabilities = [Fin (ln (1 / 2)), Fin 0],
      in_transition_pseudocounts = [1, 1],
      out_edge_count = [0, 1, 2, 2], out_transitions = [2, 0],
      out_transition_log_probabilities = [Fin 0, Fin (ln (1 / 2))],
      out_transition_pseudocounts = [1, 1],
      state_weights = [Fin 0], finite' = 1\<rparr>"





text \<open>
  A stand-in for \<open>networkx.topological_sort\<close> on these graphs: among their silent
  states every listing that keeps \<open>start\<close> before \<open>S\<close> is a topological order, and the
  order of the nodes is one.
\<close>

definition nodes_in_order :: "'d graph \<Rightarrow> error + 'd state list" where
  "nodes_in_order sub = Inr (nodes sub)"

section \<open>Lemmas about the examples\<close>

lemma example_states [simp]:
  "state_start \<noteq> state_end" "state_end \<noteq> state_start" "state_start \<noteq> state_A"
  "state_A \<noteq> state_start" "state_end \<noteq> state_A" "state_A \<noteq> state_end"
  "state_S \<noteq> state_start" "state_start \<noteq> state_S" "state_S \<noteq> state_end"
  "state_end \<noteq> state_S" "state_S \<noteq> state_A" "state_A \<noteq> state_S"
  "is_silent state_start" "is_silent state_end" "is_silent state_S" "\<not> is_silent state_A"
  "distribution state_start = None" "distribution state_end = None"
  "distribution state_A = Some only_zero"
  "state_weight state_A = 1"
  by (simp_all add: state_start_def state_end_def state_A_def state_S_def is_silent_def)

lemma empty_graph: "empty_graph = \<lparr>nodes = [state_start, state_end], edges = []\<rparr>"
  by (simp add: empty_graph_def add_node_def)

lemma loop_graph:
  "loop_graph = \<lparr>nodes = [state_start, state_end, state_A],
     edges = [((state_start, state_A), \<lparr>weight = Fin 0, pseudocount = 1\<rparr>),
              ((state_A, state_A), \<lparr>weight = Fin (ln (1 / 2)), pseudocount = 1 / 2\<rparr>),
              ((state_A, state_end), \<lparr>weight = Fin (ln (1 / 2)), pseudocount = 1 / 2\<rparr>)]\<rparr>"
  by (simp add: loop_graph_def empty_graph add_transition_def add_edge_def add_node_def
      log'_def Let_def)

lemma loop_graph_edges: "graph_edges loop_graph = edges loop_graph"
  by (simp add: loop_graph graph_edges_def)

lemma loop_graph_count:
  "count_pass loop_graph [0, 0, 0] [0, 0, 0] = Inr ([0, Suc 0, 2], [Suc 0, 0, 2])"
  unfolding count_pass_def loop_graph_edges
  by (simp add: loop_graph index_dict_def upt_rec bind_err_def numeral_2_eq_2)

lemma loop_graph_orphans:
  "orphan_pass state_start state_end [0, Suc 0, 2] [Suc 0, 0, 2] loop_graph = (loop_graph, 0)"
  by (simp add: orphan_pass_def loop_graph upt_rec)

lemma loop_graph_pruned:
  "prune_loop state_start state_end [0, 0, 0] [0, 0, 0] loop_graph = Some (Inr loop_graph)"
  by (subst prune_loop.simps) (simp add: loop_graph_count loop_graph_orphans)

lemma half_plus_half: "exp (ln (1 / 2 :: real)) = 1 / 2" by simp

lemma loop_graph_normalized: "normalize state_end loop_graph = loop_graph"
  by (simp add: normalize_def normalize_state_def loop_graph out_weights_def dsum_def Let_def)

lemma loop_graph_merge_pass:
  "merge_pass MergeAll state_start state_end loop_graph = (loop_graph, 0)"
  by (simp add: merge_pass_def graph_edges_def loop_graph)

lemma loop_graph_merged:
  "merge_loop MergeAll state_start state_end loop_graph = Some loop_graph"
  by (subst merge_loop.simps) (simp add: loop_graph_merge_pass)

lemma loop_graph_nodes: "length (nodes loop_graph) = 3"
  by (simp add: loop_graph)

lemma loop_graph_baked:
  "bake_graph MergeAll state_start state_end loop_graph = Some (Inr loop_graph)"
  unfolding bake_graph_def loop_graph_nodes
  by (simp add: numeral_3_eq_3 loop_graph_pruned loop_graph_normalized loop_graph_merged)

lemma loop_graph_silent:
  "silent_subgraph loop_graph = \<lparr>nodes = [state_start, state_end], edges = []\<rparr>"
  by (simp add: silent_subgraph_def loop_graph)

lemma loop_graph_compiled:
  "compile nodes_in_order state_start state_end loop_graph = Inr loop_model"
  unfolding compile_def loop_graph_edges loop_graph_silent
  by (simp add: loop_graph loop_model_def nodes_in_order_def index_dict_def upt_rec bind_err_def
      cumsum_def store_edge_def Let_def)

lemma loop_model_baked:
  "bake nodes_in_order MergeAll state_start state_end loop_graph
     = Some (Inr (loop_graph, loop_model))"
  by (simp add: bake_def loop_graph_baked loop_graph_compiled bind_err_def)















section \<open>Lemmas about doubles\<close>

lemma good_simps [simp]: "good (Fin r)" "good NEGINF" "\<not> good NaN" "\<not> good POSINF"
  by (simp_all add: good_def)

lemma prob_simps [simp]:
  "prob (Fin r) = exp r" "prob NEGINF = 0" "prob NaN = 0" "prob POSINF = 0"
  by (simp_all add: prob_def)

lemma goodE: "good x \<Longrightarrow> (x = NEGINF \<Longrightarrow> R) \<Longrightarrow> (\<And>r. x = Fin r \<Longrightarrow> R) \<Longrightarrow> R"
  by (cases x) simp_all

lemma prob_nonneg [simp]: "0 \<le> prob x"
  by (cases x) simp_all

lemma good_eqI: "good x \<Longrightarrow> good y \<Longrightarrow> prob x = prob y \<Longrightarrow> x = y"
  by (cases x; cases y) simp_all

lemma good_plus: "good x \<Longrightarrow> good y \<Longrightarrow> good (x + y)"
  by (cases x; cases y) simp_all

lemma prob_plus: "good x \<Longrightarrow> good y \<Longrightarrow> prob (x + y) = prob x * prob y"
  by (cases x; cases y) (simp_all add: exp_add)





section \<open>Claims about the sequence log-probability\<close>






















section \<open>Claims about Viterbi and sampling\<close>

text \<open>
  What \<open>_viterbi\<close> does with the log-likelihood it reads from its table (at the end
  state of a finite model, at the best state of the last row otherwise): when it is
  \<open>NEGINF\<close>, it returns \<open>(NEGINF, None)\<close> without a traceback; and it returns no path in
  no other case.
\<close>

lemma viterbi_readout:
  assumes "weighted_emission_table lp M sequence = Inr e"
    and "v = viterbi_rows M e (length sequence)"
    and "finite' M = 1 \<or> v ! length sequence \<noteq> []"
  shows "(fst (v ! length sequence ! viterbi_end M v (length sequence)) = NEGINF \<longrightarrow>
            viterbi' lp M sequence = Some (Inr (NEGINF, None))) \<and>
         (\<forall>score. viterbi' lp M sequence = Some (Inr (score, None)) \<longrightarrow> score = NEGINF)"
  using assms
  by (auto simp: viterbi'_def Let_def split: option.splits if_splits)

lemma loop_model_viterbi_rows:
  "viterbi_rows loop_model [[NEGINF]] 1
     = [[(NEGINF, None), (Fin 0, None), (NEGINF, None)],
        [(NEGINF, None), (NEGINF, None), (NEGINF, None)]]"
  by (simp add: viterbi_rows_def viterbi_row0_def viterbi_step_def in_max_def loop_model_def
      Let_def upt_rec)

text \<open>
  On a sequence that is not empty and that the model cannot generate, here the symbol
  \<open>1\<close> on \<open>loop_model\<close>, whose only emitting state emits \<open>0\<close>, the result is
  \<open>(NEGINF, None)\<close>.
\<close>

lemma loop_model_viterbi_impossible:
  "viterbi' apply_lp loop_model [1] = Some (Inr (NEGINF, None))"
proof -
  have e: "weighted_emission_table apply_lp loop_model [1] = Inr [[NEGINF]]"
    by (simp add: weighted_emission_table_def loop_model_def state_A_def only_zero_def
        apply_lp_def)
  have v: "viterbi_rows loop_model [[NEGINF]] 1 = viterbi_rows loop_model [[NEGINF]] (length [1::nat])"
    by simp
  have fin: "finite' loop_model = 1 \<or> viterbi_rows loop_model [[NEGINF]] 1 ! length [1::nat] \<noteq> []"
    by (simp add: loop_model_def)
  have score: "fst (viterbi_rows loop_model [[NEGINF]] 1 ! length [1::nat]
                 ! viterbi_end loop_model (viterbi_rows loop_model [[NEGINF]] 1) (length [1::nat]))
               = NEGINF"
    unfolding loop_model_viterbi_rows by (simp add: viterbi_end_def loop_model_def)
  from viterbi_readout [OF e v fin] score show ?thesis
    by blast
qed

text \<open>
  C8, evaluated. The docstring of \<open>viterbi\<close> promises \<open>(-inf, None)\<close> if the sequence is
  impossible under the model, and the doctests of the module show \<open>viterbi([])\<close>
  returning \<open>(-inf, None)\<close>. The code misses it on the empty sequence: \<open>loop_model\<close>
  cannot generate the empty sequence (every way from \<open>start\<close> to \<open>end\<close> passes through
  the emitting state \<open>A\<close>), and \<open>_viterbi\<close> raises a \<open>ValueError\<close>, because the emission
  table \<open>cvarray( shape=(n, self.silent_start) )\<close> has an axis of length \<open>n = 0\<close>.
\<close>

theorem viterbi_empty_sequence:
  "bake nodes_in_order MergeAll state_start state_end loop_graph
     = Some (Inr (loop_graph, loop_model)) \<and>
   viterbi' apply_lp loop_model [] = Some (Inl ValueError)"
  using loop_model_baked by (simp add: viterbi'_def weighted_emission_table_def)

lemma loop_model_cum: "cum_probabilities loop_model = [Fin (1 / 2), Fin 1, Fin 1]"
  by (simp add: cum_probabilities_def loop_model_def upt_rec numeral_nat Let_def)

text \<open>
  C9, evaluated. The claim is what the source's docstring and comments say
  (\<open>it will force itself to not take an end transition unless that is the only path\<close>),
  and the code misses it: asked for three symbols on \<open>loop_model\<close>, with random numbers
  \<open>3/4\<close>, the walk emits one symbol in \<open>A\<close>, draws the edge \<open>A \<rightarrow> end\<close> although \<open>A\<close> also
  has the edge \<open>A \<rightarrow> A\<close>, and stops in the end state. After the draw the code looks for
  another edge among the out-edges of the state it has just moved to (the end state,
  which has none) instead of those of the state it came from.
\<close>

theorem sample_takes_end_edge:
  "sample' draw_zero (\<lambda>n. 3 / 4) 0 loop_model 3 True
     = Some (Inr ([0], Some [state_start, state_A, state_end])) \<and>
   out_edge_count loop_model ! 1 - out_edge_count loop_model ! 0 = 2"
  unfolding sample'_def loop_model_cum
  apply (subst sample_loop.simps)
  apply (simp add: loop_model_def upt_rec Let_def draw_zero_def)
  apply (subst sample_loop.simps)
  apply (simp add: loop_model_def upt_rec Let_def draw_zero_def)
  apply (subst sample_loop.simps)
  apply (simp add: loop_model_def upt_rec Let_def draw_zero_def)
  done

section \<open>Claims about baking\<close>

lemma compile_states:
  assumes "compile topological_sort start end g = Inr M"
  shows "\<exists>sorted. topological_sort (silent_subgraph g) = Inr sorted \<and>
           states M = filter (\<lambda>s. \<not> is_silent s) (nodes g) @ sorted \<and>
           silent_start M = length (filter (\<lambda>s. \<not> is_silent s) (nodes g))"
proof (cases "topological_sort (silent_subgraph g)")
  case (Inl e)
  with assms show ?thesis by (simp add: compile_def bind_err_def Let_def)
next
  case (Inr sorted)
  with assms show ?thesis
    by (auto simp: compile_def bind_err_def Let_def
        split: sum.splits option.splits prod.splits if_splits)
qed

lemma bake_compile:
  assumes "bake topological_sort merge start end g0 = Some (Inr (g, M))"
  shows "compile topological_sort start end g = Inr M"
  using assms
  by (auto simp: bake_def bind_err_def split: option.splits sum.splits)

text \<open>
  C4. In a baked model the state vector holds the states of the baked graph, the
  emitting ones at the indices below \<open>silent_start\<close> and the silent ones from
  \<open>silent_start\<close> on, and every transition of the graph between two silent states goes
  from a lower index to a higher one. \<open>networkx.topological_sort\<close> is taken at its
  word (\<open>topological_order\<close>) for the one graph it is called on; a graph with a cycle of
  silent states makes it raise, and \<open>bake\<close> does not complete.
\<close>

theorem bake_state_order:
  assumes baked: "bake topological_sort merge start end g0 = Some (Inr (g, M))"
    and contract: "\<forall>order. topological_sort (silent_subgraph g) = Inr order
                     \<longrightarrow> topological_order (silent_subgraph g) order"
    and wf: "\<forall>((a, b), attr) \<in> set (edges g). a \<in> set (nodes g) \<and> b \<in> set (nodes g)"
  shows "(\<forall>i < length (states M). (i < silent_start M) = (\<not> is_silent (states M ! i))) \<and>
         set (states M) = set (nodes g) \<and>
         (\<forall>((a, b), attr) \<in> set (edges g). is_silent a \<and> is_silent b \<longrightarrow>
            (\<exists>i j. silent_start M \<le> i \<and> i < j \<and> j < length (states M)
                   \<and> states M ! i = a \<and> states M ! j = b))"
proof -
  let ?normal = "filter (\<lambda>s. \<not> is_silent s) (nodes g)"
  from compile_states [OF bake_compile [OF baked]] obtain sorted where
    ts: "topological_sort (silent_subgraph g) = Inr sorted"
    and st: "states M = ?normal @ sorted"
    and ss: "silent_start M = length ?normal"
    by blast
  from contract ts have ord: "topological_order (silent_subgraph g) sorted" by blast
  have set_sorted: "set sorted = {s \<in> set (nodes g). is_silent s}"
    using ord by (auto simp: topological_order_def silent_subgraph_def Let_def)
  have part: "\<forall>i < length (states M). (i < silent_start M) = (\<not> is_silent (states M ! i))"
  proof (intro allI impI)
    fix i assume i: "i < length (states M)"
    show "(i < silent_start M) = (\<not> is_silent (states M ! i))"
    proof (cases "i < length ?normal")
      case True
      then have "?normal ! i \<in> set ?normal" by (rule nth_mem)
      then have "\<not> is_silent (?normal ! i)" by (simp del: nth_mem)
      then show ?thesis using True by (simp add: ss st nth_append)
    next
      case False
      then have "states M ! i = sorted ! (i - length ?normal)" "i - length ?normal < length sorted"
        using i by (simp_all add: st nth_append)
      then have "states M ! i \<in> set sorted" by (metis nth_mem)
      then show ?thesis using False set_sorted by (simp add: ss)
    qed
  qed
  have sets: "set (states M) = set (nodes g)"
    using set_sorted by (auto simp: st)
  have edges: "\<forall>((a, b), attr) \<in> set (edges g). is_silent a \<and> is_silent b \<longrightarrow>
            (\<exists>i j. silent_start M \<le> i \<and> i < j \<and> j < length (states M)
                   \<and> states M ! i = a \<and> states M ! j = b)"
  proof (clarify)
    fix a b attr
    assume e: "((a, b), attr) \<in> set (edges g)" and sil: "is_silent a" "is_silent b"
    from wf e have "a \<in> set (nodes g)" "b \<in> set (nodes g)" by auto
    with e sil have "((a, b), attr) \<in> set (edges (silent_subgraph g))"
      by (simp add: silent_subgraph_def Let_def)
    with ord obtain i j where ij: "i < j" "j < length sorted" "sorted ! i = a" "sorted ! j = b"
      by (fastforce simp: topological_order_def)
    show "\<exists>i j. silent_start M \<le> i \<and> i < j \<and> j < length (states M)
                   \<and> states M ! i = a \<and> states M ! j = b"
      by (rule exI [of _ "length ?normal + i"], rule exI [of _ "length ?normal + j"])
         (use ij in \<open>simp add: st ss nth_append\<close>)
  qed
  from part sets edges show ?thesis by blast
qed

lemma chain_graph:
  "chain_graph = \<lparr>nodes = [state_start, state_end, state_S, state_A],
     edges = [((state_start, state_S), \<lparr>weight = Fin (ln 2), pseudocount = 2\<rparr>),
              ((state_S, state_A), \<lparr>weight = Fin 0, pseudocount = 1\<rparr>),
              ((state_A, state_end), \<lparr>weight = Fin 0, pseudocount = 1\<rparr>)]\<rparr>"
  by (simp add: chain_graph_def empty_graph add_transition_def add_edge_def add_node_def
      log'_def Let_def)

lemma round8_two: "py_round8 (Fin 2) = Fin 2"
  by simp

lemma chain_graph_normalized: "normalize state_end chain_graph = chain_normalized"
  by (simp add: normalize_def normalize_state_def chain_graph chain_normalized_def
      out_weights_def dsum_def log'_def Let_def)

lemma chain_graph_baked:
  "bake_graph MergeNone state_start state_end chain_graph = Some (Inr chain_normalized)"
  by (simp add: bake_graph_def chain_graph_normalized)

lemma chain_edges: "graph_edges chain_normalized = edges chain_normalized"
  by (simp add: chain_normalized_def graph_edges_def)

lemma chain_silent:
  "silent_subgraph chain_normalized =
     \<lparr>nodes = [state_start, state_end, state_S],
      edges = [((state_start, state_S), \<lparr>weight = Fin 0, pseudocount = 2\<rparr>)]\<rparr>"
  by (simp add: silent_subgraph_def chain_normalized_def)

lemma chain_compiled:
  "compile nodes_in_order state_start state_end chain_normalized = Inr chain_model"
  unfolding compile_def chain_edges chain_silent
  by (simp add: chain_normalized_def chain_model_def nodes_in_order_def index_dict_def upt_rec
      bind_err_def cumsum_def store_edge_def Let_def)

lemma chain_model_baked:
  "bake nodes_in_order MergeNone state_start state_end chain_graph
     = Some (Inr (chain_normalized, chain_model))"
  by (simp add: bake_def chain_graph_baked chain_compiled bind_err_def)

lemma chain_order:
  "topological_order (silent_subgraph chain_normalized) [state_start, state_end, state_S]"
proof -
  have "\<exists>i j. i < j \<and> j < length [state_start, state_end, state_S]
          \<and> [state_start, state_end, state_S] ! i = state_start
          \<and> [state_start, state_end, state_S] ! j = state_S"
    by (rule exI [of _ 0], rule exI [of _ 2]) simp
  then show ?thesis
    unfolding chain_silent topological_order_def by auto
qed

theorem bake_state_order_witness:
  "silent_start chain_model = 1 \<and> length (states chain_model) = 4 \<and>
   \<not> is_silent (states chain_model ! 0) \<and> is_silent (states chain_model ! 1) \<and>
   is_silent (states chain_model ! 2) \<and> is_silent (states chain_model ! 3) \<and>
   set (states chain_model) = set (nodes chain_normalized) \<and>
   (\<exists>i j. silent_start chain_model \<le> i \<and> i < j \<and> j < length (states chain_model)
          \<and> states chain_model ! i = state_start \<and> states chain_model ! j = state_S)"
proof -
  have c: "\<forall>order. nodes_in_order (silent_subgraph chain_normalized) = Inr order
             \<longrightarrow> topological_order (silent_subgraph chain_normalized) order"
    using chain_order by (simp add: nodes_in_order_def chain_silent)
  have w: "\<forall>((a, b), attr) \<in> set (edges chain_normalized).
             a \<in> set (nodes chain_normalized) \<and> b \<in> set (nodes chain_normalized)"
    by (simp add: chain_normalized_def)
  have e: "((state_start, state_S), \<lparr>weight = Fin 0, pseudocount = 2\<rparr>)
             \<in> set (edges chain_normalized)"
    by (simp add: chain_normalized_def)
  have l: "silent_start chain_model = 1" "length (states chain_model) = 4"
    by (simp_all add: chain_model_def)
  from bake_state_order [OF chain_model_baked c w]
  have part: "\<forall>i < length (states chain_model).
                (i < silent_start chain_model) = (\<not> is_silent (states chain_model ! i))"
    and sets: "set (states chain_model) = set (nodes chain_normalized)"
    and ord: "\<forall>((a, b), attr) \<in> set (edges chain_normalized). is_silent a \<and> is_silent b \<longrightarrow>
            (\<exists>i j. silent_start chain_model \<le> i \<and> i < j \<and> j < length (states chain_model)
                   \<and> states chain_model ! i = a \<and> states chain_model ! j = b)"
    by blast+
  from part [rule_format, of 0] part [rule_format, of 1] part [rule_format, of 2]
    part [rule_format, of 3] l
  have "\<not> is_silent (states chain_model ! 0)" "is_silent (states chain_model ! 1)"
    "is_silent (states chain_model ! 2)" "is_silent (states chain_model ! 3)"
    by simp_all
  moreover from ord e have "\<exists>i j. silent_start chain_model \<le> i \<and> i < j
      \<and> j < length (states chain_model)
      \<and> states chain_model ! i = state_start \<and> states chain_model ! j = state_S"
    by fastforce
  ultimately show ?thesis using l sets by blast
qed

lemma out_weights_normalize_other:
  "t \<noteq> s \<Longrightarrow> out_weights (normalize_state end t g) s = out_weights g s"
proof -
  have "map (\<lambda>(ab, attr). weight attr)
          (filter (\<lambda>((a, b), attr). a = s)
             (map (\<lambda>((a, b), attr). if a = t then ((a, b), attr\<lparr>weight := weight attr - c\<rparr>)
                                     else ((a, b), attr)) es))
        = map (\<lambda>(ab, attr). weight attr) (filter (\<lambda>((a, b), attr). a = s) es)"
    if "t \<noteq> s" for es :: "(('a state \<times> 'a state) \<times> edge_attr) list" and c
    using that by (induction es) (auto split: if_splits)
  then show "t \<noteq> s \<Longrightarrow> out_weights (normalize_state end t g) s = out_weights g s"
    by (simp add: out_weights_def normalize_state_def Let_def)
qed

lemma out_weights_normalize_self:
  "out_weights (normalize_state end s g) s =
     (let z = py_round8 (dsum (map cexp (out_weights g s)))
      in if z \<noteq> Fin 1 \<and> s \<noteq> end then map (\<lambda>w. w - log' z) (out_weights g s)
         else out_weights g s)"
proof -
  have "map (\<lambda>(ab, attr). weight attr)
          (filter (\<lambda>((a, b), attr). a = s)
             (map (\<lambda>((a, b), attr). if a = s then ((a, b), attr\<lparr>weight := weight attr - c\<rparr>)
                                     else ((a, b), attr)) es))
        = map (\<lambda>w. w - c) (map (\<lambda>(ab, attr). weight attr) (filter (\<lambda>((a, b), attr). a = s) es))"
    for es :: "(('a state \<times> 'a state) \<times> edge_attr) list" and c
    by (induction es) (auto split: if_splits)
  then show ?thesis
    by (simp add: out_weights_def normalize_state_def Let_def)
qed

lemma out_weights_fold_notin:
  "s \<notin> set ns \<Longrightarrow> out_weights (fold (normalize_state end) ns g) s = out_weights g s"
  by (induction ns arbitrary: g) (auto simp: out_weights_normalize_other)

lemma out_weights_fold_in:
  "distinct ns \<Longrightarrow> s \<in> set ns \<Longrightarrow>
   out_weights (fold (normalize_state end) ns g) s = out_weights (normalize_state end s g) s"
proof (induction ns arbitrary: g)
  case Nil
  then show ?case by simp
next
  case (Cons t ns)
  show ?case
  proof (cases "t = s")
    case True
    with Cons.prems show ?thesis by (simp add: out_weights_fold_notin)
  next
    case False
    with Cons.prems have "out_weights (fold (normalize_state end) ns (normalize_state end t g)) s
        = out_weights (normalize_state end s (normalize_state end t g)) s"
      by (intro Cons.IH) auto
    also have "\<dots> = out_weights (normalize_state end s g) s"
      unfolding out_weights_normalize_self out_weights_normalize_other [OF False] ..
    finally show ?thesis by simp
  qed
qed

lemma nodes_normalize_state: "nodes (normalize_state end t g) = nodes g"
  by (simp add: normalize_state_def Let_def)

lemma foldl_plus_cexp:
  "\<forall>w \<in> set ws. good w \<Longrightarrow>
   foldl (+) (Fin acc) (map cexp ws) = Fin (acc + sum_list (map prob ws))"
proof (induction ws arbitrary: acc)
  case Nil
  then show ?case by simp
next
  case (Cons w ws)
  then have "good w" by simp
  then show ?case
    using Cons by (cases w) (simp_all add: add.assoc)
qed

lemma dsum_cexp: "\<forall>w \<in> set ws. good w \<Longrightarrow> dsum (map cexp ws) = Fin (sum_list (map prob ws))"
  using foldl_plus_cexp [of ws 0] by (simp add: dsum_def)

lemma round8_bounds:
  fixes z :: real
  assumes "1 / 2 \<le> z"
  defines "r \<equiv> of_int \<lfloor>z * 10 ^ 8 + 1 / 2\<rfloor> / 10 ^ 8"
  shows "1 / 2 \<le> r" and "\<bar>z - r\<bar> \<le> 5 / 10 ^ 9"
proof -
  let ?f = "\<lfloor>z * 10 ^ 8 + 1 / 2\<rfloor>"
  have lo: "of_int ?f \<le> z * 10 ^ 8 + 1 / 2" by (rule of_int_floor_le)
  have hi: "z * 10 ^ 8 + 1 / 2 < of_int ?f + 1" by linarith
  have "(50000000::real) \<le> z * 10 ^ 8 + 1 / 2" using assms(1) by simp
  then have "(50000000::int) \<le> ?f" by (simp add: le_floor_iff)
  then have "(50000000::real) \<le> of_int ?f" by linarith
  then show "1 / 2 \<le> r" by (simp add: r_def field_simps)
  have d: "\<bar>z * 10 ^ 8 - of_int ?f\<bar> \<le> 1 / 2" using lo hi by linarith
  have e1: "(z - r) * 10 ^ 8 = z * 10 ^ 8 - of_int ?f" by (simp add: r_def algebra_simps)
  have "\<bar>(z - r) * 10 ^ 8\<bar> = \<bar>z - r\<bar> * 10 ^ 8" unfolding abs_mult by simp
  with d e1 have "\<bar>z - r\<bar> * 10 ^ 8 \<le> 1 / 2" by simp
  then show "\<bar>z - r\<bar> \<le> 5 / 10 ^ 9" by simp
qed

lemma good_minus_Fin: "good w \<Longrightarrow> good (w - Fin c) \<and> prob (w - Fin c) = prob w / exp c"
  by (cases w) (simp_all add: exp_diff)

lemma sum_list_div:
  "sum_list (map (\<lambda>w. f w / r) ws) = sum_list (map f ws) / (r::real)"
  by (induction ws) (simp_all add: add_divide_distrib)

lemma normalized_sum:
  assumes good: "\<forall>w \<in> set ws. good w"
    and z: "1 / 2 \<le> sum_list (map prob ws)"
    and c: "c"
  shows "sums_to_one (dsum (map cexp
           (let r = py_round8 (dsum (map cexp ws))
            in if r \<noteq> Fin 1 \<and> c then map (\<lambda>w. w - log' r) ws else ws)))"
proof -
  define z where "z = sum_list (map prob ws)"
  define r :: real where "r = of_int \<lfloor>z * 10 ^ 8 + 1 / 2\<rfloor> / 10 ^ 8"
  have zh: "1 / 2 \<le> z" using z by (simp add: z_def)
  have r: "py_round8 (dsum (map cexp ws)) = Fin r"
    using zh by (simp add: dsum_cexp [OF good] r_def z_def)
  have rb: "1 / 2 \<le> r" "\<bar>z - r\<bar> \<le> 5 / 10 ^ 9"
    using round8_bounds [OF zh] by (simp_all add: r_def)
  show ?thesis
  proof (cases "r = 1")
    case True
    then have "(let r = py_round8 (dsum (map cexp ws))
            in if r \<noteq> Fin 1 \<and> c then map (\<lambda>w. w - log' r) ws else ws) = ws"
      unfolding r by (simp add: Let_def)
    moreover have "sums_to_one (Fin z)"
      using rb(2) True by (simp add: sums_to_one_def)
    ultimately show ?thesis by (simp add: dsum_cexp [OF good] z_def)
  next
    case False
    have lg: "log' (Fin r) = Fin (ln r)" using rb(1) by (simp add: log'_def)
    let ?ws = "map (\<lambda>w. w - Fin (ln r)) ws"
    have eq: "(let r = py_round8 (dsum (map cexp ws))
            in if r \<noteq> Fin 1 \<and> c then map (\<lambda>w. w - log' r) ws else ws) = ?ws"
      unfolding r using False c by (simp add: Let_def lg)
    have g': "\<forall>w \<in> set ?ws. good w" using good good_minus_Fin by auto
    have "map prob ?ws = map (\<lambda>w. prob w / r) ws"
      using good good_minus_Fin rb(1) by (auto simp: exp_ln)
    then have "sum_list (map prob ?ws) = sum_list (map (\<lambda>w. prob w / r) ws)"
      by (rule arg_cong)
    then have sm: "sum_list (map prob ?ws) = z / r"
      unfolding sum_list_div z_def .
    have ds: "dsum (map cexp ?ws) = Fin (z / r)"
      unfolding dsum_cexp [OF g'] sm ..
    have "\<bar>z / r - 1\<bar> \<le> 1 / 10 ^ 8"
    proof -
      have "z / r - 1 = (z - r) / r" using rb(1) by (simp add: field_simps)
      then have "\<bar>z / r - 1\<bar> = \<bar>z - r\<bar> / r" using rb(1) by (simp add: abs_divide)
      also have "\<dots> \<le> (5 / 10 ^ 9) / (1 / 2)"
        using rb by (intro frac_le) auto
      finally show ?thesis by simp
    qed
    then show ?thesis
      unfolding eq ds by (simp add: sums_to_one_def)
  qed
qed

text \<open>
  The normalization pass of \<open>bake\<close> by itself does what it is meant to do: it leaves
  the probabilities of the out-edges of a state other than the end state summing to one
  within \<open>1e-8\<close>, when they are probabilities that summed to at least \<open>1/2\<close> before. The
  pass divides by the sum rounded to eight decimals, so the result is the sum over the
  rounded sum.
\<close>

lemma normalization_sums_to_one:
  assumes "distinct (nodes g)" and "s \<in> set (nodes g)" and "s \<noteq> end"
    and "\<forall>w \<in> set (out_weights g s). good w"
    and "1 / 2 \<le> sum_list (map prob (out_weights g s))"
  shows "bake_graph MergeNone start end g = Some (Inr (normalize end g)) \<and>
         sums_to_one (dsum (map cexp (out_weights (normalize end g) s)))"
proof
  show "bake_graph MergeNone start end g = Some (Inr (normalize end g))"
    by (simp add: bake_graph_def)
  have "out_weights (normalize end g) s = out_weights (normalize_state end s g) s"
    unfolding normalize_def using assms(1,2) by (rule out_weights_fold_in)
  then show "sums_to_one (dsum (map cexp (out_weights (normalize end g) s)))"
    unfolding out_weights_normalize_self
    using normalized_sum [OF assms(4,5), of "s \<noteq> end"] assms(3) by simp
qed

lemma zero_graph:
  "zero_graph = \<lparr>nodes = [state_start, state_end, state_A],
     edges = [((state_start, state_A), \<lparr>weight = NEGINF, pseudocount = 0\<rparr>),
              ((state_A, state_end), \<lparr>weight = Fin 0, pseudocount = 1\<rparr>)]\<rparr>"
  by (simp add: zero_graph_def empty_graph add_transition_def add_edge_def add_node_def
      log'_def Let_def)

lemma zero_graph_edges: "graph_edges zero_graph = edges zero_graph"
  by (simp add: zero_graph graph_edges_def)

lemma zero_graph_count:
  "count_pass zero_graph [0, 0, 0] [0, 0, 0] = Inr ([0, Suc 0, Suc 0], [Suc 0, 0, Suc 0])"
  unfolding count_pass_def zero_graph_edges
  by (simp add: zero_graph index_dict_def upt_rec bind_err_def)

lemma zero_graph_orphans:
  "orphan_pass state_start state_end [0, Suc 0, Suc 0] [Suc 0, 0, Suc 0] zero_graph
     = (zero_graph, 0)"
  by (simp add: orphan_pass_def zero_graph upt_rec)

lemma zero_graph_pruned:
  "prune_loop state_start state_end [0, 0, 0] [0, 0, 0] zero_graph = Some (Inr zero_graph)"
  by (subst prune_loop.simps) (simp add: zero_graph_count zero_graph_orphans)

lemma zero_graph_normalized: "normalize state_end zero_graph = zero_baked"
  by (simp add: normalize_def normalize_state_def zero_graph zero_baked_def out_weights_def
      dsum_def log'_def Let_def)

lemma zero_graph_merge_pass:
  "merge_pass MergeAll state_start state_end zero_baked = (zero_baked, 0)"
  by (simp add: merge_pass_def graph_edges_def zero_baked_def)

lemma zero_graph_merged:
  "merge_loop MergeAll state_start state_end zero_baked = Some zero_baked"
  by (subst merge_loop.simps) (simp add: zero_graph_merge_pass)

lemma zero_graph_nodes: "length (nodes zero_graph) = 3"
  by (simp add: zero_graph)

lemma zero_graph_baked:
  "bake_graph MergeAll state_start state_end zero_graph = Some (Inr zero_baked)"
  unfolding bake_graph_def zero_graph_nodes
  by (simp add: numeral_3_eq_3 zero_graph_pruned zero_graph_normalized zero_graph_merged)

lemma zero_baked_edges: "graph_edges zero_baked = edges zero_baked"
  by (simp add: zero_baked_def graph_edges_def)

lemma zero_baked_silent:
  "silent_subgraph zero_baked = \<lparr>nodes = [state_start, state_end], edges = []\<rparr>"
  by (simp add: silent_subgraph_def zero_baked_def)

lemma zero_compiled:
  "compile nodes_in_order state_start state_end zero_baked = Inr zero_model"
  unfolding compile_def zero_baked_edges zero_baked_silent
  by (simp add: zero_baked_def zero_model_def nodes_in_order_def index_dict_def upt_rec
      bind_err_def cumsum_def store_edge_def Let_def)

text \<open>
  A state whose only transition was added with probability zero cannot be normalized:
  its weight is \<open>-inf - log( 0 )\<close>, which is \<open>NaN\<close>, after \<open>bake\<close>.
\<close>

lemma zero_probability_nan:
  "bake nodes_in_order MergeAll state_start state_end zero_graph
     = Some (Inr (zero_baked, zero_model)) \<and>
   states zero_model ! 1 = state_start \<and> state_start \<noteq> state_end \<and>
   outgoing_sum zero_model 1 = NaN \<and>
   \<not> sums_to_one (outgoing_sum zero_model 1)"
proof -
  have s: "outgoing_sum zero_model 1 = NaN"
    by (simp add: outgoing_sum_def zero_model_def dsum_def upt_rec)
  show ?thesis
    unfolding s
    by (simp add: bake_def zero_graph_baked zero_compiled bind_err_def sums_to_one_def)
      (simp add: zero_model_def)
qed

lemma diamond_graph:
  "diamond_graph = \<lparr>nodes = [state_start, state_end, state_S, state_A],
     edges = [((state_start, state_S), \<lparr>weight = Fin (ln (1 / 2)), pseudocount = 1 / 2\<rparr>),
              ((state_start, state_A), \<lparr>weight = Fin (ln (1 / 2)), pseudocount = 1 / 2\<rparr>),
              ((state_S, state_A), \<lparr>weight = Fin 0, pseudocount = 1\<rparr>),
              ((state_A, state_end), \<lparr>weight = Fin 0, pseudocount = 1\<rparr>)]\<rparr>"
  by (simp add: diamond_graph_def empty_graph add_transition_def add_edge_def add_node_def
      log'_def Let_def)

lemma diamond_edges: "graph_edges diamond_graph = edges diamond_graph"
  by (simp add: diamond_graph graph_edges_def)

lemma diamond_count:
  "count_pass diamond_graph [0, 0, 0, 0] [0, 0, 0, 0] = Inr ([0, Suc 0, Suc 0, 2], [2, 0, Suc 0, Suc 0])"
  unfolding count_pass_def diamond_edges
  by (simp add: diamond_graph index_dict_def upt_rec bind_err_def numeral_2_eq_2)

lemma diamond_orphans:
  "orphan_pass state_start state_end [0, Suc 0, Suc 0, 2] [2, 0, Suc 0, Suc 0] diamond_graph
     = (diamond_graph, 0)"
  by (simp add: orphan_pass_def diamond_graph upt_rec)

lemma diamond_pruned:
  "prune_loop state_start state_end [0, 0, 0, 0] [0, 0, 0, 0] diamond_graph
     = Some (Inr diamond_graph)"
  by (subst prune_loop.simps) (simp add: diamond_count diamond_orphans)

lemma diamond_normalized: "normalize state_end diamond_graph = diamond_graph"
  by (simp add: normalize_def normalize_state_def diamond_graph out_weights_def dsum_def Let_def)

lemma diamond_merge_pass:
  "merge_pass MergeAll state_start state_end diamond_graph = (diamond_baked, Suc 0)"
  unfolding merge_pass_def diamond_edges
  by (simp add: diamond_graph diamond_baked_def redirect_pass_def graph_edges_def add_edge_def
      add_node_def remove_edge_def remove_node_def Let_def)

lemma diamond_merge_pass2:
  "merge_pass MergeAll state_start state_end diamond_baked = (diamond_baked, 0)"
  by (simp add: merge_pass_def graph_edges_def diamond_baked_def)

lemma diamond_merged:
  "merge_loop MergeAll state_start state_end diamond_graph = Some diamond_baked"
  apply (subst merge_loop.simps)
  apply (simp add: diamond_merge_pass)
  apply (subst merge_loop.simps)
  apply (simp add: diamond_merge_pass2)
  done

lemma diamond_nodes: "length (nodes diamond_graph) = 4"
  by (simp add: diamond_graph)

lemma diamond_graph_baked:
  "bake_graph MergeAll state_start state_end diamond_graph = Some (Inr diamond_baked)"
  unfolding bake_graph_def diamond_nodes
  by (simp add: numeral_eq_Suc diamond_pruned diamond_normalized diamond_merged)

lemma diamond_baked_edges: "graph_edges diamond_baked = edges diamond_baked"
  by (simp add: diamond_baked_def graph_edges_def)

lemma diamond_baked_silent:
  "silent_subgraph diamond_baked = \<lparr>nodes = [state_start, state_end], edges = []\<rparr>"
  by (simp add: silent_subgraph_def diamond_baked_def)

lemma diamond_compiled:
  "compile nodes_in_order state_start state_end diamond_baked = Inr diamond_model"
  unfolding compile_def diamond_baked_edges diamond_baked_silent
  by (simp add: diamond_baked_def diamond_model_def nodes_in_order_def index_dict_def upt_rec
      bind_err_def cumsum_def store_edge_def Let_def)

text \<open>
  C3, evaluated. The claim is what \<open>bake\<close> is meant to establish (its comments:
  \<open>make sure out edges sum to 1. Normalize them to 1 if this is not the case\<close>; its
  docstring: merging simplifies the model \<open>without changing the underlying meaning\<close>),
  and the code misses it with the default \<open>merge='all'\<close>. In \<open>diamond_graph\<close> the
  transitions out of \<open>start\<close> were added with probabilities \<open>1/2\<close> and \<open>1/2\<close>. The merge
  pass, which runs after the normalization, merges the silent state \<open>S\<close> into \<open>A\<close> and
  redirects \<open>start \<rightarrow> S\<close> onto the existing edge \<open>start \<rightarrow> A\<close>, whose probability
  \<open>add_edge\<close> overwrites rather than adds to. In the baked model the probabilities of
  the out-edges of \<open>start\<close> sum to \<open>1/2\<close>.
\<close>

theorem merge_drops_probability:
  "dsum (map cexp (out_weights diamond_graph state_start)) = Fin 1 \<and>
   bake nodes_in_order MergeAll state_start state_end diamond_graph
     = Some (Inr (diamond_baked, diamond_model)) \<and>
   states diamond_model ! 1 = state_start \<and> state_start \<noteq> state_end \<and>
   outgoing_sum diamond_model 1 = Fin (1 / 2) \<and>
   \<not> sums_to_one (outgoing_sum diamond_model 1)"
proof -
  have s: "outgoing_sum diamond_model 1 = Fin (1 / 2)"
    by (simp add: outgoing_sum_def diamond_model_def dsum_def upt_rec)
  have i: "dsum (map cexp (out_weights diamond_graph state_start)) = Fin 1"
    by (simp add: diamond_graph out_weights_def dsum_def)
  show ?thesis
    unfolding s i
    by (simp add: bake_def diamond_graph_baked diamond_compiled bind_err_def sums_to_one_def)
      (simp add: diamond_model_def)
qed

section \<open>Claims about the distributions\<close>

lemma foldl_plus_Fin:
  "foldl (+) (Fin acc) (map2 (\<lambda>x y. x * Fin y) (map Fin xs) w)
     = Fin (acc + sum_list (map2 (*) xs w))"
proof (induction xs arbitrary: acc w)
  case Nil
  then show ?case by simp
next
  case (Cons x xs)
  then show ?case by (cases w) (simp_all add: add.assoc)
qed

lemma dsum_dot:
  "dsum (map2 (\<lambda>x y. x * Fin y) (map Fin xs) w) = Fin (sum_list (map2 (*) xs w))"
  using foldl_plus_Fin [of 0 xs w] by (simp add: dsum_def)

lemma weights_or_ones_map: "weights_or_ones (map f xs) ws = weights_or_ones xs ws"
  by (simp add: weights_or_ones_def split: option.splits)

lemma gamma_fit_example:
  "gamma_from_sample (\<lambda>x. NaN) (\<lambda>x. NaN) (\<lambda>n. 0) 0 [Fin 2, Fin 1] (map Fin [1, 1]) None
     (1 / 10 ^ 9) 0 = Inr ([Fin 2, Fin 2], 0)"
  by (simp add: gamma_from_sample_def weights_or_ones_def average_d_def dsum_def log_array_def
      log'_def Let_def)

text \<open>
  C6, as the code has it. A gamma fit on a non-empty sample of finite values whose
  weights do not sum to zero ends with shape \<open>\<alpha>\<close> and rate \<open>\<alpha> \<cdot> \<Sigma>w / \<Sigma>(x\<cdot>w)\<close>, the shape
  divided by the weighted mean (stated for a finite non-zero shape and a non-zero
  \<open>\<Sigma>(x\<cdot>w)\<close>, where the quotient is a number). This holds whatever \<open>polygamma\<close> and
  the random numbers are and however many Newton-Raphson steps were taken.
\<close>

theorem gamma_rate:
  assumes res: "gamma_from_sample digamma trigamma rng pos ps (map Fin xs) ws eps limit
                  = Inr ([Fin a, r], pos')"
    and ne: "xs \<noteq> []"
    and sw: "sum_list (weights_or_ones xs ws) \<noteq> 0"
    and a: "a \<noteq> 0"
    and d: "sum_list (map2 (*) xs (weights_or_ones xs ws)) \<noteq> 0"
  shows "r = Fin (a * sum_list (weights_or_ones xs ws)
                    / sum_list (map2 (*) xs (weights_or_ones xs ws)))"
proof -
  from res ne sw show ?thesis
    unfolding gamma_from_sample_def Let_def weights_or_ones_map dsum_dot
    using a d
    by (auto split: sum.splits prod.splits if_splits)
qed

theorem gamma_rate_witness:
  "Fin 2 = Fin (2 * sum_list (weights_or_ones [1, 1 :: real] None)
                  / sum_list (map2 (*) [1, 1] (weights_or_ones [1, 1 :: real] None)))"
  using gamma_rate [OF gamma_fit_example] by (simp add: weights_or_ones_def)

text \<open>
  The rate of the specification's sentence is a different number: on the sample
  \<open>[1, 1]\<close> with unit weights and shape \<open>2\<close> the fit stores the rate \<open>2\<close>, the sentence
  gives \<open>1/2\<close>. (With \<open>iteration_limit = 0\<close> the fit does not call \<open>polygamma\<close>, so the
  value does not depend on what stands for it here.)
\<close>

theorem gamma_rate_counterexample:
  "gamma_from_sample (\<lambda>x. NaN) (\<lambda>x. NaN) (\<lambda>n. 0) 0 [Fin 2, Fin 1] (map Fin [1, 1]) None
     (1 / 10 ^ 9) 0 = Inr ([Fin 2, Fin 2], 0) \<and>
   Fin 2 \<noteq> Fin (spec_rate 2 (weights_or_ones [1, 1 :: real] None) [1, 1])"
  using gamma_fit_example by (simp add: spec_rate_def weights_or_ones_def)

text \<open>
  The two rates agree only for a shape of \<open>1\<close> or \<open>-1\<close>: whenever the fitted shape is
  another number, the stored rate is not the one of the specification's sentence.
\<close>

lemma gamma_rate_differs:
  assumes res: "gamma_from_sample digamma trigamma rng pos ps (map Fin xs) ws eps limit
                  = Inr ([Fin a, r], pos')"
    and ne: "xs \<noteq> []"
    and sw: "sum_list (weights_or_ones xs ws) \<noteq> 0"
    and a: "a \<noteq> 0" "a\<^sup>2 \<noteq> 1"
    and d: "sum_list (map2 (*) xs (weights_or_ones xs ws)) \<noteq> 0"
  shows "r \<noteq> Fin (spec_rate a (weights_or_ones xs ws) xs)"
proof -
  let ?S = "sum_list (weights_or_ones xs ws)"
  let ?D = "sum_list (map2 (*) xs (weights_or_ones xs ws))"
  from res ne sw have r: "r = Fin (a * ?S / ?D)"
    unfolding gamma_from_sample_def Let_def weights_or_ones_map dsum_dot
    using a d
    by (auto split: sum.splits prod.splits if_splits)
  have "a * ?S / ?D \<noteq> ?S / (a * ?D)"
  proof
    assume "a * ?S / ?D = ?S / (a * ?D)"
    with a(1) d have "a * ?S * (a * ?D) = ?S * ?D"
      by (simp add: field_simps)
    then have "(a\<^sup>2 - 1) * (?S * ?D) = 0"
      by (simp add: algebra_simps power2_eq_square)
    with sw d a(2) show False by simp
  qed
  with r show ?thesis by (simp add: spec_rate_def)
qed

text \<open>
  The fits that have a guard (\<open>No sample, so just ignore it and keep our old
  parameters\<close>): \<open>Normal\<close>, \<open>Exponential\<close>, \<open>Gamma\<close> and \<open>InverseGamma\<close> keep their
  parameters when the sample is empty or the weights sum to zero; \<open>Uniform\<close> keeps them
  when the sample is empty or no weight is positive.
\<close>

lemma normal_noop:
  "items = [] \<or> (\<exists>w. weights = Some w \<and> sum_list w = 0) \<Longrightarrow>
   normal_from_sample ps items weights min_std = Inr ps"
  by (auto simp: normal_from_sample_def weights_or_ones_def Let_def)

lemma exponential_noop:
  "items = [] \<or> (\<exists>w. weights = Some w \<and> sum_list w = 0) \<Longrightarrow>
   exponential_from_sample ps items weights = Inr ps"
  by (auto simp: exponential_from_sample_def weights_or_ones_def Let_def)

lemma gamma_noop:
  "items = [] \<or> (\<exists>w. weights = Some w \<and> sum_list w = 0) \<Longrightarrow>
   gamma_from_sample digamma trigamma rng pos ps items weights eps limit = Inr (ps, pos)"
  by (auto simp: gamma_from_sample_def weights_or_ones_def Let_def)

lemma uniform_noop:
  assumes "items = [] \<or> (\<exists>w. weights = Some w \<and> (\<forall>x \<in> set w. x \<le> 0))"
  shows "uniform_from_sample ps items weights = ps"
proof -
  have u: "map fst (filter (\<lambda>(item, weight). 0 < weight) (zip items w)) = []"
    if "\<forall>x \<in> set w. x \<le> 0" for w :: "real list"
    using that by (auto simp: filter_empty_conv dest!: set_zip_rightD)
  from assms show ?thesis
  proof
    assume "items = []"
    then show ?thesis
      by (simp add: uniform_from_sample_def split: option.splits)
  next
    assume "\<exists>w. weights = Some w \<and> (\<forall>x \<in> set w. x \<le> 0)"
    then obtain w where "weights = Some w" "\<forall>x \<in> set w. x \<le> 0" by blast
    then show ?thesis
      by (simp add: uniform_from_sample_def u)
  qed
qed

lemma inverse_gamma_noop:
  "items = [] \<or> (\<exists>w. weights = Some w \<and> sum_list w = 0) \<Longrightarrow>
   inverse_gamma_from_sample digamma trigamma rng pos ps items weights = Inr (ps, pos)"
  unfolding inverse_gamma_from_sample_def by (rule gamma_noop) simp

text \<open>
  C7, evaluated. The claim is what the guarded fits say they do, and what the trainers
  rely on when they pass a state's (possibly empty) sample to \<open>from_sample\<close>; the
  discrete distribution and the kernel densities miss it, since their \<open>from_sample\<close>
  has no guard. Fitted on an empty sample, a discrete table that gave the symbol \<open>a\<close>
  probability one becomes the empty table; fitted on a sample whose weights sum to zero,
  it gives \<open>a\<close> the value \<open>0/0\<close>. A kernel density fitted on an empty sample loses its
  points and weights.
\<close>

theorem from_sample_without_guard:
  "discrete_from_sample [CHR ''a'' \<mapsto> Fin 1] [] None = Map.empty \<and>
   discrete_from_sample [CHR ''a'' \<mapsto> Fin 1] [CHR ''a''] (Some [0]) = [CHR ''a'' \<mapsto> NaN] \<and>
   points (kernel_density_from_sample
             \<lparr>points = [1], kd_weights = [Fin 1], kd_parameters = ([1], 1, [Fin 1])\<rparr> [] None)
     = [] \<and>
   kd_weights (kernel_density_from_sample
                 \<lparr>points = [1], kd_weights = [Fin 1], kd_parameters = ([1], 1, [Fin 1])\<rparr> [] None)
     = []"
  by (simp add: discrete_from_sample_def normalized_weights_def
      kernel_density_from_sample_def)

section \<open>Claims about the builder\<close>

lemma edges_add_edge:
  "map_of (edges (add_edge g u v attr)) (u, v) = Some attr"
  by (simp add: add_edge_def add_node_def Let_def update_conv')

text \<open>
  C10. When \<open>add_transition\<close> is called with a pseudocount that is \<open>None\<close> or zero, the
  edge stores the transition probability as its pseudocount; a non-zero pseudocount is
  stored as given.
\<close>

theorem add_transition_pseudocount:
  "(pc = None \<or> pc = Some 0 \<longrightarrow>
      map_option pseudocount (map_of (edges (add_transition g a b p pc)) (a, b)) = Some p) \<and>
   (\<forall>c. pc = Some c \<and> c \<noteq> 0 \<longrightarrow>
      map_option pseudocount (map_of (edges (add_transition g a b p pc)) (a, b)) = Some c)"
  by (auto simp: add_transition_def edges_add_edge)

theorem add_transition_pseudocount_witness:
  "map_option pseudocount
     (map_of (edges (add_transition \<lparr>nodes = [], edges = []\<rparr>
        \<lparr>identity = 0, distribution = None :: unit option, state_weight = 1\<rparr>
        \<lparr>identity = 1, distribution = None, state_weight = 1\<rparr> (1/2) (Some 0)))
        (\<lparr>identity = 0, distribution = None, state_weight = 1\<rparr>,
         \<lparr>identity = 1, distribution = None, state_weight = 1\<rparr>)) = Some (1/2) \<and>
   map_option pseudocount
     (map_of (edges (add_transition \<lparr>nodes = [], edges = []\<rparr>
        \<lparr>identity = 0, distribution = None :: unit option, state_weight = 1\<rparr>
        \<lparr>identity = 1, distribution = None, state_weight = 1\<rparr> (1/2) (Some 3)))
        (\<lparr>identity = 0, distribution = None, state_weight = 1\<rparr>,
         \<lparr>identity = 1, distribution = None, state_weight = 1\<rparr>)) = Some 3"
  using add_transition_pseudocount
    [of "Some 0" "\<lparr>nodes = [], edges = []\<rparr>"
        "\<lparr>identity = 0, distribution = None :: unit option, state_weight = 1\<rparr>"
        "\<lparr>identity = 1, distribution = None, state_weight = 1\<rparr>" "1/2"]
    add_transition_pseudocount
    [of "Some 3" "\<lparr>nodes = [], edges = []\<rparr>"
        "\<lparr>identity = 0, distribution = None :: unit option, state_weight = 1\<rparr>"
        "\<lparr>identity = 1, distribution = None, state_weight = 1\<rparr>" "1/2"]
  by simp

end
